theory Spec2Isabelle
  imports Complex_Main "HOL-Library.Word" "HOL-Library.List_Lexorder" "HOL-Library.Multiset" "HOL-Library.FSet"
    "HOL-Library.Char_ord" "HOL-Library.AList"
begin

unbundle bit_operations_syntax

section \<open>Exceptions\<close>

text \<open>
  Every exception class that the modelled functions raise is one constructor.  A function
  that may raise returns \<open>error + 'a\<close>; where the source mutates an object before it
  raises, the function returns the object next to the result.
\<close>

datatype error =
    ValueError
  | TypeError
  | AttributeError
  | KeyError
  | IndexError
  | OverflowError
  | StopIteration
  | FrozenError
  | PortWidthMismatch
  | PortLayerMismatch
  | PortTypeMismatch
  | PlacerError
  | RuntimeError

section \<open>Decimal rendering of integers\<close>

text \<open>Python's \<open>str(n)\<close> for an \<open>int\<close>, as used by the f-strings of the source.\<close>

definition digit_char :: "nat \<Rightarrow> char" where
  "digit_char d = ''0123456789'' ! d"

fun str_nat :: "nat \<Rightarrow> string" where
  "str_nat n = (if n < 10 then [digit_char n] else str_nat (n div 10) @ [digit_char (n mod 10)])"

declare str_nat.simps [simp del]

definition str_int :: "int \<Rightarrow> string" where
  "str_int i = (if i < 0 then CHR ''-'' # str_nat (nat (- i)) else str_nat (nat i))"

section \<open>Cross sections (cross\_section.py)\<close>

type_synonym LayerInfo = "int \<times> int"

text \<open>
  Of \<open>LayerEnclosure\<close> (enclosure.py) the constructor of the cross section reads the
  name and the optional main layer only.
\<close>

record LayerEnclosure =
  enc_name :: string
  main_layer :: "LayerInfo option"

record SymmetricalCrossSection =
  xs_width :: int
  xs_enclosure :: LayerEnclosure
  xs_name :: string
  xs_radius :: "int option"
  xs_radius_min :: "int option"
  xs_bbox_sections :: "(LayerInfo \<times> int \<times> int \<times> int \<times> int) list"

text \<open>\<open>name or f"{enclosure.name}_{width}"\<close>: \<open>None\<close> and the empty string are falsy.\<close>

definition name_or_default :: "string option \<Rightarrow> LayerEnclosure \<Rightarrow> int \<Rightarrow> string" where
  "name_or_default name enclosure width =
     (case name of
        None \<Rightarrow> enc_name enclosure @ ''_'' @ str_int width
      | Some n \<Rightarrow> if n = [] then enc_name enclosure @ ''_'' @ str_int width else n)"

text \<open>The validator that runs before the model is built: it fills in the name once more.\<close>

definition set_name :: "SymmetricalCrossSection \<Rightarrow> SymmetricalCrossSection" where
  "set_name data =
     data\<lparr>xs_name := name_or_default (Some (xs_name data)) (xs_enclosure data) (xs_width data)\<rparr>"

definition validate_enclosure_main_layer ::
  "SymmetricalCrossSection \<Rightarrow> error + SymmetricalCrossSection" where
  "validate_enclosure_main_layer self =
     (if main_layer (xs_enclosure self) = None then Inl ValueError
      else if (xs_width self div 2) * 2 \<noteq> xs_width self then Inl ValueError
      else Inr self)"

definition validate_width :: "SymmetricalCrossSection \<Rightarrow> error + SymmetricalCrossSection" where
  "validate_width self = (if xs_width self \<le> 0 then Inl ValueError else Inr self)"

text \<open>
  \<open>SymmetricalCrossSection.__init__\<close>: the keyword arguments go to the pydantic
  constructor, which runs \<open>_set_name\<close> before and the two validators after building
  the model, in the order of their definition.
\<close>

definition SymmetricalCrossSection_init ::
  "int \<Rightarrow> LayerEnclosure \<Rightarrow> string option \<Rightarrow> (LayerInfo \<times> int \<times> int \<times> int \<times> int) list option
     \<Rightarrow> error + SymmetricalCrossSection" where
  "SymmetricalCrossSection_init width enclosure name bbox_sections =
     (let data = \<lparr>xs_width = width, xs_enclosure = enclosure,
                  xs_name = name_or_default name enclosure width,
                  xs_radius = None, xs_radius_min = None,
                  xs_bbox_sections = (case bbox_sections of None \<Rightarrow> [] | Some b \<Rightarrow> b)\<rparr>;
          self = set_name data
      in case validate_enclosure_main_layer self of
           Inl e \<Rightarrow> Inl e
         | Inr self' \<Rightarrow> validate_width self')"

section \<open>Transformations (klayout.db.Trans)\<close>

text \<open>
  Modelled from the spec: the layout backend is not part of the repository.  A simple
  transformation is one of the eight rigid motions in steps of 90 degrees followed by an
  integer displacement: it mirrors at the x axis first (when the flag is set), then
  rotates by \<open>angle\<close> quarter turns, then displaces.  The product \<open>a * b\<close> of the
  backend applies \<open>b\<close> first.
\<close>

type_synonym Vector = "int \<times> int"

record Trans =
  angle :: int
  is_mirror :: bool
  disp :: Vector

definition Trans_new :: "int \<Rightarrow> bool \<Rightarrow> Vector \<Rightarrow> Trans" where
  "Trans_new rot mirrx u = \<lparr>angle = rot mod 4, is_mirror = mirrx, disp = u\<rparr>"

definition R0 :: Trans where "R0 = Trans_new 0 False (0, 0)"
definition R180 :: Trans where "R180 = Trans_new 2 False (0, 0)"
definition M90 :: Trans where "M90 = Trans_new 2 True (0, 0)"

definition rotate_quarter :: "int \<Rightarrow> Vector \<Rightarrow> Vector" where
  "rotate_quarter a v =
     (case v of (x, y) \<Rightarrow>
        if a mod 4 = 0 then (x, y)
        else if a mod 4 = 1 then (- y, x)
        else if a mod 4 = 2 then (- x, - y)
        else (y, - x))"

definition rotate_mirror :: "Trans \<Rightarrow> Vector \<Rightarrow> Vector" where
  "rotate_mirror t v =
     rotate_quarter (angle t) (case v of (x, y) \<Rightarrow> if is_mirror t then (x, - y) else (x, y))"

definition vadd :: "Vector \<Rightarrow> Vector \<Rightarrow> Vector" where
  "vadd u v = (fst u + fst v, snd u + snd v)"

definition vneg :: "Vector \<Rightarrow> Vector" where
  "vneg u = (- fst u, - snd u)"

definition Trans_apply :: "Trans \<Rightarrow> Vector \<Rightarrow> Vector" where
  "Trans_apply t v = vadd (rotate_mirror t v) (disp t)"

definition Trans_mul :: "Trans \<Rightarrow> Trans \<Rightarrow> Trans" where
  "Trans_mul a b =
     \<lparr>angle = (if is_mirror a then angle a - angle b else angle a + angle b) mod 4,
      is_mirror = (is_mirror a \<noteq> is_mirror b),
      disp = vadd (disp a) (rotate_mirror a (disp b))\<rparr>"

definition Trans_inverted :: "Trans \<Rightarrow> Trans" where
  "Trans_inverted t =
     (let f = \<lparr>angle = (if is_mirror t then angle t else - angle t) mod 4,
               is_mirror = is_mirror t, disp = (0, 0)\<rparr>
      in f\<lparr>disp := vneg (rotate_mirror f (disp t))\<rparr>)"

text \<open>The constructor and the operations of the backend keep the angle in 0, 1, 2, 3.\<close>

definition wf_Trans :: "Trans \<Rightarrow> bool" where
  "wf_Trans t \<longleftrightarrow> 0 \<le> angle t \<and> angle t < 4"

section \<open>Bytes\<close>

type_synonym byte = "8 word"
type_synonym bytes = "byte list"

text \<open>
  A Python \<open>str\<close> is modelled by a \<open>string\<close> whose characters are the code points
  below 256.  \<open>encode("UTF-8")\<close> writes a code point below 128 as one byte and the
  others as two; \<open>encode("ascii", "ignore")\<close> drops the code points from 128 on.
\<close>

definition utf8_char :: "char \<Rightarrow> bytes" where
  "utf8_char c =
     (let n = (of_char c :: nat)
      in if n < 128 then [of_nat n]
         else [0xC0 OR of_nat (n div 64), 0x80 OR of_nat (n mod 64)])"

definition encode_utf8 :: "string \<Rightarrow> bytes" where
  "encode_utf8 s = concat (map utf8_char s)"

definition encode_ascii_ignore :: "string \<Rightarrow> bytes" where
  "encode_ascii_ignore s = map (\<lambda>c. of_nat (of_char c)) (filter (\<lambda>c. (of_char c :: nat) < 128) s)"

text \<open>The eight bytes of a number below \<open>2 ^ 64\<close>, most significant byte first.\<close>

definition be_bytes8 :: "nat \<Rightarrow> bytes" where
  "be_bytes8 n = map (\<lambda>i. of_nat (n div 256 ^ (7 - i))) [0..<8]"

text \<open>
  \<open>int.to_bytes(8, "big")\<close>: the conversion is unsigned, so it raises
  \<open>OverflowError\<close> for a negative number and for one that needs more than eight bytes.
\<close>

definition to_bytes8 :: "int \<Rightarrow> error + bytes" where
  "to_bytes8 n = (if n < 0 \<or> 2 ^ 64 \<le> n then Inl OverflowError else Inr (be_bytes8 (nat n)))"

text \<open>
  The digest and the hash values of the backend's objects are taken as parameters.  The
  backend returns its hashes as unsigned 64-bit numbers, for which \<open>to_bytes(8, "big")\<close>
  never raises.
\<close>

record backend =
  sha3_512 :: "bytes \<Rightarrow> bytes"
  Trans_hash :: "Trans \<Rightarrow> 64 word"
  Polygon_hash :: "Vector list \<Rightarrow> 64 word"
  Text_hash :: "string \<times> Trans \<Rightarrow> 64 word"

text \<open>A backend for evaluating examples: the digest keeps its input, every hash is 0.\<close>

definition example_backend :: backend where
  "example_backend =
     \<lparr>sha3_512 = (\<lambda>b. b), Trans_hash = (\<lambda>t. 0), Polygon_hash = (\<lambda>p. 0), Text_hash = (\<lambda>t. 0)\<rparr>"

definition hash_bytes :: "64 word \<Rightarrow> bytes" where
  "hash_bytes h = be_bytes8 (unat h)"

text \<open>The first error of a list of results, or all the values.\<close>

fun sequence_err :: "(error + 'a) list \<Rightarrow> error + 'a list" where
  "sequence_err [] = Inr []"
| "sequence_err (Inl e # rs) = Inl e"
| "sequence_err (Inr x # rs) = (case sequence_err rs of Inl e \<Rightarrow> Inl e | Inr xs \<Rightarrow> Inr (x # xs))"

section \<open>Ports (kcell.py)\<close>

text \<open>
  \<open>Port\<close>, the integer based port with a simple transformation: \<open>int_based()\<close> is
  true and \<open>complex()\<close> is false for it, so \<open>is_simple_port\<close> holds.
\<close>

record Port =
  name :: string
  trans :: Trans
  width :: int
  layer :: int
  port_type :: string

text \<open>\<open>IPortLike.hash\<close>: five updates of the digest, in this order.\<close>

definition IPortLike_hash :: "backend \<Rightarrow> Port \<Rightarrow> error + bytes" where
  "IPortLike_hash B self =
     (let h1 = encode_utf8 (name self);
          h2 = h1 @ hash_bytes (Trans_hash B (trans self))
      in case to_bytes8 (width self) of
           Inl e \<Rightarrow> Inl e
         | Inr wb \<Rightarrow>
             (let h3 = h2 @ wb;
                  h4 = h3 @ encode_utf8 (port_type self)
              in case to_bytes8 (layer self) of
                   Inl e \<Rightarrow> Inl e
                 | Inr lb \<Rightarrow> Inr (sha3_512 B (h4 @ lb))))"

text \<open>\<open>Port.copy(trans)\<close>: the copy carries \<open>trans * self.trans\<close>.\<close>

definition Port_copy :: "Port \<Rightarrow> Trans \<Rightarrow> Port" where
  "Port_copy self t =
     \<lparr>name = name self, trans = Trans_mul t (trans self), width = width self,
      layer = layer self, port_type = port_type self\<rparr>"

text \<open>\<open>Ports.__getitem__\<close>: the first port of that name, \<open>StopIteration\<close> if there is none.\<close>

definition Ports_getitem :: "Port list \<Rightarrow> string \<Rightarrow> error + Port" where
  "Ports_getitem ports key =
     (case filter (\<lambda>port. name port = key) ports of
        [] \<Rightarrow> Inl StopIteration
      | p # _ \<Rightarrow> Inr p)"

text \<open>\<open>Ports.get_all\<close>: the dictionary from names to ports; a later port wins.\<close>

definition Ports_get_all :: "Port list \<Rightarrow> (string \<rightharpoonup> Port)" where
  "Ports_get_all ports = map_of (rev (map (\<lambda>v. (name v, v)) ports))"

text \<open>\<open>Ports.add_port\<close>: the port is copied, renamed on request and refused when its name is taken.\<close>

definition Ports_add_port :: "Port list \<Rightarrow> Port \<Rightarrow> string option \<Rightarrow> error option \<times> Port list" where
  "Ports_add_port ports port new_name =
     (let p0 = Port_copy port R0;
          p1 = (case new_name of None \<Rightarrow> p0 | Some n \<Rightarrow> p0\<lparr>name := n\<rparr>)
      in if Ports_get_all ports (name p1) \<noteq> None then (Some ValueError, ports)
         else (None, ports @ [p1]))"

text \<open>
  \<open>Ports.create_port\<close>: from a transformation, or from an angle and a position; the
  port is appended without a look at the names already there.
\<close>

definition Ports_create_port ::
  "Port list \<Rightarrow> string \<Rightarrow> int \<Rightarrow> int \<Rightarrow> string \<Rightarrow> Trans option \<Rightarrow> Vector option \<Rightarrow> int option \<Rightarrow> bool
     \<Rightarrow> (error + Port) \<times> Port list" where
  "Ports_create_port ports nm w l ptype t position ang mirror_x =
     (case t of
        Some t' \<Rightarrow>
          (let port = \<lparr>name = nm, trans = t', width = w, layer = l, port_type = ptype\<rparr>
           in (Inr port, ports @ [port]))
      | None \<Rightarrow>
          (case (ang, position) of
             (Some a, Some pos) \<Rightarrow>
               (let port = \<lparr>name = nm, trans = Trans_new a mirror_x pos, width = w, layer = l,
                            port_type = ptype\<rparr>
                in (Inr port, ports @ [port]))
           | _ \<Rightarrow> (Inl ValueError, ports)))"

section \<open>Values of parameters and settings\<close>

text \<open>
  The Python values that occur as arguments of cell functions and as settings.  A
  \<open>bool\<close> is the \<open>int\<close> 0 or 1 (Python compares and hashes it so), a cell is the
  identity of its object, a callable is its qualified name, \<open>VEmpty\<close> is the marker
  of a parameter without default.  A dictionary is the list of its items in the order of
  insertion.  Two frozen sets are equal when they have the same elements.
\<close>

datatype pyval =
    VNone
  | VEmpty
  | VInt int
  | VStr string
  | VTuple "pyval list"
  | VList "pyval list"
  | VDict "(pyval \<times> pyval) list"
  | VFrozenset "pyval fset"
  | VCell nat
  | VCallable string

section \<open>Cells and instances (kcell.py)\<close>

record Shapes =
  regions :: "Vector list list"
  texts :: "(string \<times> Trans) list"

text \<open>
  A \<open>KCell\<close> with the name, the shapes per layer index (in the order of the layout's
  layer indexes) and the numbered properties of its backend cell, and with its ports,
  instances, settings, lock flag and info.  An \<open>Instance\<close> refers to a cell and
  carries the transformation of its backend instance.
\<close>

datatype KCell =
  KCell (kc_name: string) (kc_shapes: "(nat \<times> Shapes) list") (kc_properties: "(nat \<times> string) list")
        (kc_ports: "Port list") (kc_insts: "Instance list")
        (kc_settings: "(string \<times> pyval) list") (kc_locked: bool) (kc_info: "(string \<times> pyval) list")
and Instance =
  Instance (inst_cell: KCell) (inst_trans: Trans)

definition set_ports :: "Port list \<Rightarrow> KCell \<Rightarrow> KCell" where
  "set_ports ps c =
     KCell (kc_name c) (kc_shapes c) (kc_properties c) ps (kc_insts c) (kc_settings c)
       (kc_locked c) (kc_info c)"

definition set_insts :: "Instance list \<Rightarrow> KCell \<Rightarrow> KCell" where
  "set_insts is c =
     KCell (kc_name c) (kc_shapes c) (kc_properties c) (kc_ports c) is (kc_settings c)
       (kc_locked c) (kc_info c)"

text \<open>\<open>KCell.create_port\<close> hands its keyword arguments to the port collection and returns nothing.\<close>

definition KCell_create_port ::
  "KCell \<Rightarrow> string \<Rightarrow> int \<Rightarrow> int \<Rightarrow> string \<Rightarrow> Trans option \<Rightarrow> Vector option \<Rightarrow> int option \<Rightarrow> bool
     \<Rightarrow> error option \<times> KCell" where
  "KCell_create_port self nm w l ptype t position ang mirror_x =
     (case Ports_create_port (kc_ports self) nm w l ptype t position ang mirror_x of
        (Inl e, ps) \<Rightarrow> (Some e, set_ports ps self)
      | (Inr port, ps) \<Rightarrow> (None, set_ports ps self))"

text \<open>
  \<open>KCell.add_port\<close> for a \<open>Port\<close>.  (For a port of another class the source converts
  it to an integer based port first; those classes carry floating point numbers and are
  not modelled.)
\<close>

definition KCell_add_port :: "KCell \<Rightarrow> Port \<Rightarrow> string option \<Rightarrow> error option \<times> KCell" where
  "KCell_add_port self port new_name =
     (case Ports_add_port (kc_ports self) port new_name of
        (r, ps) \<Rightarrow> (r, set_ports ps self))"

text \<open>\<open>KCell.create_inst\<close>: the backend inserts the instance, the cell appends it to \<open>insts\<close>.\<close>

definition KCell_create_inst :: "KCell \<Rightarrow> KCell \<Rightarrow> Trans \<Rightarrow> Instance \<times> KCell" where
  "KCell_create_inst self cell t =
     (let inst = Instance cell t
      in (inst, set_insts (kc_insts self @ [inst]) self))"

text \<open>
  \<open>KCell.hash\<close> and \<open>Instance.hash\<close>.  The cell feeds the digest with its name, with
  the hashes of the polygons and then of the texts of every layer, and with the sorted
  hashes of its ports.  It also computes the sorted hashes of its instances, and returns
  the digest.
\<close>

fun KCell_hash :: "backend \<Rightarrow> KCell \<Rightarrow> error + bytes"
and Instance_hash :: "backend \<Rightarrow> Instance \<Rightarrow> error + bytes" where
  "KCell_hash B (KCell nm shapes props ports insts settings locked info) =
     (let h1 = encode_ascii_ignore nm;
          h2 = h1 @ concat (map (\<lambda>(l, s).
                      concat (map (\<lambda>polygon. hash_bytes (Polygon_hash B polygon)) (regions s))
                      @ concat (map (\<lambda>text. hash_bytes (Text_hash B text)) (texts s))) shapes)
      in case sequence_err (map (IPortLike_hash B) ports) of
           Inl e \<Rightarrow> Inl e
         | Inr hs \<Rightarrow>
             (let port_hashs = sort hs;
                  h3 = h2 @ concat port_hashs
              in case sequence_err (map (Instance_hash B) insts) of
                   Inl e \<Rightarrow> Inl e
                 | Inr ihs \<Rightarrow>
                     (let insts_hashs = sort ihs
                      in Inr (sha3_512 B h3))))"
| "Instance_hash B (Instance c t) =
     (case KCell_hash B c of
        Inl e \<Rightarrow> Inl e
      | Inr ch \<Rightarrow> Inr (sha3_512 B (ch @ hash_bytes (Trans_hash B t))))"

section \<open>Connecting instances (kcell.py)\<close>

text \<open>
  What \<open>connect\<close> may be given as \<open>other\<close>: an instance, a \<open>Port\<close>, or an object
  of another class.  The instances of the model are placed by simple transformations, so
  that \<open>InstancePorts.__getitem__\<close> returns the port of the cell copied under the
  transformation of the instance, which is a simple integer port again.
\<close>

datatype Other = OtherInstance Instance | OtherPort Port | OtherObject

definition InstancePorts_getitem :: "Instance \<Rightarrow> string \<Rightarrow> error + Port" where
  "InstancePorts_getitem inst key =
     (case Ports_getitem (kc_ports (inst_cell inst)) key of
        Inl e \<Rightarrow> Inl e
      | Inr p \<Rightarrow> Inr (Port_copy p (inst_trans inst)))"

text \<open>The other port \<open>op\<close> that \<open>connect\<close> resolves first.\<close>

definition resolve_other :: "Other \<Rightarrow> string option \<Rightarrow> error + Port" where
  "resolve_other other other_port_name =
     (case other of
        OtherInstance oi \<Rightarrow>
          (case other_port_name of
             None \<Rightarrow> Inl ValueError
           | Some n \<Rightarrow> InstancePorts_getitem oi n)
      | OtherPort port \<Rightarrow> Inr port
      | OtherObject \<Rightarrow> Inl ValueError)"

text \<open>
  \<open>Instance.connect\<close>.  The result is the exception, if one is raised, and the
  instance as the call leaves it.  The other port is a \<open>Port\<close> here, for which
  \<open>is_simple_port\<close> holds, so the last branch is the one with \<open>Trans.M90\<close> and
  \<open>Trans.R180\<close>.
\<close>

definition connect ::
  "Instance \<Rightarrow> string \<Rightarrow> Other \<Rightarrow> string option \<Rightarrow> bool \<Rightarrow> bool \<Rightarrow> bool \<Rightarrow> bool
     \<Rightarrow> error option \<times> Instance" where
  "connect self portname other other_port_name mirror allow_width_mismatch
       allow_layer_mismatch allow_type_mismatch =
     (case resolve_other other other_port_name of
        Inl e \<Rightarrow> (Some e, self)
      | Inr op \<Rightarrow>
          (case Ports_getitem (kc_ports (inst_cell self)) portname of
             Inl e \<Rightarrow> (Some e, self)
           | Inr p \<Rightarrow>
               if width p \<noteq> width op \<and> \<not> allow_width_mismatch then (Some PortWidthMismatch, self)
               else if layer p \<noteq> layer op \<and> \<not> allow_layer_mismatch
                 then (Some PortLayerMismatch, self)
               else if port_type p \<noteq> port_type op \<and> \<not> allow_type_mismatch
                 then (Some PortTypeMismatch, self)
               else
                 (let conn_trans = (if mirror then M90 else R180)
                  in (None, Instance (inst_cell self)
                        (Trans_mul (Trans_mul (trans op) conn_trans) (Trans_inverted (trans p)))))))"


text \<open>A cell for evaluating examples: a straight with a port at either end.\<close>

definition example_straight :: KCell where
  "example_straight = KCell ''straight'' [] []
     [\<lparr>name = ''o1'', trans = Trans_new 2 False (0, 0), width = 500, layer = 0, port_type = ''optical''\<rparr>,
      \<lparr>name = ''o2'', trans = Trans_new 0 False (10000, 0), width = 500, layer = 0, port_type = ''optical''\<rparr>]
     [] [] False []"

section \<open>The library of cells (kcell.py)\<close>

text \<open>
  A \<open>KLib\<close> is a layout of the backend together with the dictionary \<open>kcells\<close> from
  names to the cell objects registered under them.  Of the layout the model keeps the
  names of its cells; the index of a cell is its position.
\<close>

record 'k KLib =
  kcells :: "string \<rightharpoonup> 'k"
  layout_cells :: "string list"

record kdb_Cell =
  cell_index :: nat
  cell_name :: string

text \<open>\<open>kdb.Layout.cell(name)\<close>: the cell of that name, or \<open>None\<close>.\<close>

definition Layout_cell :: "'k KLib \<Rightarrow> string \<Rightarrow> kdb_Cell option" where
  "Layout_cell lib nm =
     (case find (\<lambda>i. layout_cells lib ! i = nm) [0..<length (layout_cells lib)] of
        None \<Rightarrow> None
      | Some i \<Rightarrow> Some \<lparr>cell_index = i, cell_name = nm\<rparr>)"

text \<open>
  Modelled from the spec: \<open>kdb.Layout.create_cell\<close> belongs to the backend.  By the
  docstring of \<open>KLib.create_cell\<close> it creates the cell under the given name, or, where
  a cell of that name exists, under the name followed by \<open>$1\<close>, \<open>$2\<close>, ...: the
  first of these that no cell of the layout has.
\<close>

definition duplicate_name :: "string \<Rightarrow> nat \<Rightarrow> string" where
  "duplicate_name nm n = nm @ ''$'' @ str_nat n"

definition unique_cell_name :: "string list \<Rightarrow> string \<Rightarrow> string" where
  "unique_cell_name names nm =
     (if nm \<notin> set names then nm
      else case find (\<lambda>n. duplicate_name nm n \<notin> set names) [1..<length names + 2] of
             Some n \<Rightarrow> duplicate_name nm n
           | None \<Rightarrow> nm)"

definition Layout_create_cell :: "'k KLib \<Rightarrow> string \<Rightarrow> kdb_Cell \<times> 'k KLib" where
  "Layout_create_cell lib nm =
     (let new_name = unique_cell_name (layout_cells lib) nm
      in (\<lparr>cell_index = length (layout_cells lib), cell_name = new_name\<rparr>,
          lib\<lparr>layout_cells := layout_cells lib @ [new_name]\<rparr>))"

text \<open>
  \<open>KLib.create_cell\<close>: a name that is taken is refused with a \<open>ValueError\<close> unless
  \<open>allow_duplicate\<close> is passed; otherwise the cell object is entered in \<open>kcells\<close>
  under the requested name and the backend creates its cell.
\<close>

definition KLib_create_cell ::
  "'k KLib \<Rightarrow> 'k \<Rightarrow> string \<Rightarrow> bool \<Rightarrow> (error + kdb_Cell) \<times> 'k KLib" where
  "KLib_create_cell self kcell nm allow_duplicate =
     (if allow_duplicate \<or> Layout_cell self nm = None
      then (case Layout_create_cell (self\<lparr>kcells := (kcells self)(nm \<mapsto> kcell)\<rparr>) nm of
              (c, lib) \<Rightarrow> (Inr c, lib))
      else (Inl ValueError, self))"

section \<open>Routes and placers (routing/generic.py, routing/electrical.py)\<close>

type_synonym Point = Vector

definition vsub :: "Vector \<Rightarrow> Vector \<Rightarrow> Vector" where
  "vsub u v = (fst u - fst v, snd u - snd v)"

text \<open>
  \<open>kdb.Vector.length()\<close>, the Euclidean length, as a real number (the backend computes
  it in double precision).
\<close>

definition vlength :: "Vector \<Rightarrow> real" where
  "vlength v = sqrt (real_of_int (fst v * fst v + snd v * snd v))"

text \<open>Python's \<open>round\<close> of a number to an \<open>int\<close>: a tie goes to the even neighbour.\<close>

definition py_round :: "real \<Rightarrow> int" where
  "py_round x =
     (if x - of_int \<lfloor>x\<rfloor> = 1 / 2 then (if even \<lfloor>x\<rfloor> then \<lfloor>x\<rfloor> else \<lfloor>x\<rfloor> + 1)
      else \<lfloor>x + 1 / 2\<rfloor>)"

text \<open>
  The port class of the routing modules (port.py is not part of the sources at hand):
  the placers and \<open>route_bundle\<close> read its name, transformation, width and layer, and
  copy it with a transformation applied after its own.
\<close>

record RoutePort =
  rp_name :: string
  rp_trans :: Trans
  rp_width :: int
  rp_layer_info :: LayerInfo

definition RoutePort_copy :: "RoutePort \<Rightarrow> Trans \<Rightarrow> RoutePort" where
  "RoutePort_copy p post_trans = p\<lparr>rp_trans := Trans_mul (rp_trans p) post_trans\<rparr>"

text \<open>
  \<open>ManhattanRoute\<close>.  The polygons are values of the backend, of a type \<open>'poly\<close>; the
  instances of a route are named by their numbers.
\<close>

record 'poly ManhattanRoute =
  mr_backbone :: "Point list"
  mr_start_port :: RoutePort
  mr_end_port :: RoutePort
  mr_instances :: "nat list"
  mr_n_bend90 :: int
  mr_n_taper :: int
  mr_bend90_radius :: int
  mr_taper_length :: int
  mr_length :: int
  mr_length_straights :: int
  mr_polygons :: "(LayerInfo \<times> 'poly list) list"

text \<open>\<open>ManhattanRoute.length_backbone\<close>: here the previous point moves along.\<close>

fun length_backbone_loop :: "Point \<Rightarrow> Point list \<Rightarrow> int \<Rightarrow> int" where
  "length_backbone_loop p_old [] len = len"
| "length_backbone_loop p_old (p # ps) len =
     length_backbone_loop p ps (len + \<lfloor>vlength (vsub p p_old)\<rfloor>)"

definition length_backbone :: "'poly ManhattanRoute \<Rightarrow> error + int" where
  "length_backbone self =
     (case mr_backbone self of
        [] \<Rightarrow> Inl IndexError
      | p0 # ps \<Rightarrow> Inr (length_backbone_loop p0 ps 0))"

text \<open>
  The geometry of the backend is a parameter: the hull polygon of a path of a given width,
  and the polygons of the region between a path and a narrower path along the same points.
  The cell that a placer draws into is the list of the shapes inserted, with their layers.
\<close>

record 'poly geometry =
  path_polygon :: "Point list \<Rightarrow> int \<Rightarrow> 'poly"
  rails_region :: "Point list \<Rightarrow> int \<Rightarrow> int \<Rightarrow> 'poly list"

type_synonym 'poly route_cell = "(LayerInfo \<times> 'poly) list"

text \<open>
  The loop of \<open>place_single_wire\<close> that sums the length: \<open>pt1\<close> is the first point
  of the backbone in every round.
\<close>

fun single_wire_length :: "Point \<Rightarrow> Point list \<Rightarrow> real \<Rightarrow> real" where
  "single_wire_length pt1 [] len = len"
| "single_wire_length pt1 (pt2 # pts) len =
     single_wire_length pt1 pts (len + vlength (vsub pt2 pt1))"

definition place_single_wire ::
  "'poly geometry \<Rightarrow> RoutePort \<Rightarrow> RoutePort \<Rightarrow> Point list \<Rightarrow> int option \<Rightarrow> LayerInfo option
     \<Rightarrow> (string \<times> pyval) list \<Rightarrow> 'poly route_cell
     \<Rightarrow> (error + 'poly ManhattanRoute) \<times> 'poly route_cell" where
  "place_single_wire G p1 p2 pts route_width layer_info kwargs c =
     (let layer_info1 = (case layer_info of None \<Rightarrow> rp_layer_info p1 | Some l \<Rightarrow> l);
          route_width1 = (case route_width of None \<Rightarrow> rp_width p1 | Some w \<Rightarrow> w)
      in if kwargs \<noteq> [] then (Inl ValueError, c)
         else
           (let shape = path_polygon G pts route_width1;
                c1 = c @ [(layer_info1, shape)]
            in case pts of
                 [] \<Rightarrow> (Inl IndexError, c1)
               | pt1 # rest \<Rightarrow>
                   (let len = single_wire_length pt1 rest 0
                    in (Inr \<lparr>mr_backbone = pts, mr_start_port = p1, mr_end_port = p2,
                              mr_instances = [], mr_n_bend90 = 0, mr_n_taper = 0,
                              mr_bend90_radius = 0, mr_taper_length = 0, mr_length = 0,
                              mr_length_straights = py_round len,
                              mr_polygons = [(layer_info1, [shape])]\<rparr>, c1))))"

text \<open>
  What the specification asks of \<open>length_straights\<close>: the sum of the distances of
  consecutive points of the backbone.
\<close>

fun spec_length_straights :: "Point list \<Rightarrow> real" where
  "spec_length_straights (p # q # ps) = vlength (vsub q p) + spec_length_straights (q # ps)"
| "spec_length_straights ps = 0"

text \<open>\<open>region[i]\<close>: the polygon of that index, \<open>IndexError\<close> where there is none.\<close>

definition region_getitem :: "'poly list \<Rightarrow> nat \<Rightarrow> error + 'poly" where
  "region_getitem region i = (if i < length region then Inr (region ! i) else Inl IndexError)"

definition place_dual_rails ::
  "'poly geometry \<Rightarrow> RoutePort \<Rightarrow> RoutePort \<Rightarrow> Point list \<Rightarrow> int option \<Rightarrow> LayerInfo option
     \<Rightarrow> int option \<Rightarrow> (string \<times> pyval) list \<Rightarrow> 'poly route_cell
     \<Rightarrow> (error + 'poly ManhattanRoute) \<times> 'poly route_cell" where
  "place_dual_rails G p1 p2 pts route_width layer_info separation_rails kwargs c =
     (if kwargs \<noteq> [] then (Inl ValueError, c)
      else
        (let layer_info1 = (case layer_info of None \<Rightarrow> rp_layer_info p1 | Some l \<Rightarrow> l);
             route_width1 = (case route_width of None \<Rightarrow> rp_width p1 | Some w \<Rightarrow> w)
         in case separation_rails of
              None \<Rightarrow> (Inl ValueError, c)
            | Some sep \<Rightarrow>
                if sep \<ge> route_width1 then (Inl ValueError, c)
                else
                  (let region = rails_region G pts route_width1 sep
                   in case region_getitem region 0 of
                        Inl e \<Rightarrow> (Inl e, c)
                      | Inr r0 \<Rightarrow>
                          (let c1 = c @ [(layer_info1, r0)]
                           in case region_getitem region 1 of
                                Inl e \<Rightarrow> (Inl e, c1)
                              | Inr r1 \<Rightarrow>
                                  (let c2 = c1 @ [(layer_info1, r1)]
                                   in (Inr \<lparr>mr_backbone = pts, mr_start_port = p1,
                                             mr_end_port = p2, mr_instances = [],
                                             mr_n_bend90 = 0, mr_n_taper = 0,
                                             mr_bend90_radius = 0, mr_taper_length = 0,
                                             mr_length = 0, mr_length_straights = 0,
                                             mr_polygons = [(layer_info1, [r0, r1])]\<rparr>,
                                       c2))))))"

section \<open>Bundle routing (routing/generic.py)\<close>

text \<open>
  Modelled from the spec: the steps of the router (steps.py is not among the sources).
  \<open>route_bundle\<close> only builds \<open>Straight\<close> steps and hands the others on.
\<close>

datatype Step = Straight int | Left int | Right int | AngleStep int

text \<open>
  The forms of the arguments \<open>starts\<close> and \<open>ends\<close> (nothing, one distance, a list of
  distances, a list of steps, a list of such lists), of the angles and of the route width.
  The distances are values of the caller's unit, of a type \<open>'u\<close>.
\<close>

datatype 'u StepsArg =
  StepsNone | StepsUnit 'u | StepsUnits "'u list" | StepsSteps "Step list" | StepsLists "Step list list"

datatype 'u AnglesArg = AnglesNone | AnglesUnit 'u | AnglesList "'u list"

datatype 'u WidthArg = WidthNone | WidthUnit 'u | WidthList "'u list"

datatype OnError = On_error | On_show_error

text \<open>What \<open>route_bundle\<close> reads of a router: its two transformations, the points of its start and its width.\<close>

record Router =
  start_transformation :: Trans
  end_transformation :: Trans
  start_pts :: "Point list"
  router_width :: int

text \<open>An entry of the report database that is shown for the routes that could not be placed.\<close>

record report_item =
  ri_category :: string
  ri_error :: error
  ri_pts :: "Point list"
  ri_path_width :: int

text \<open>The keyword arguments of \<open>route_bundle\<close> that are data.\<close>

record ('u, 'p) route_bundle_kwargs =
  start_ports :: "'p list"
  end_ports :: "'p list"
  route_width :: "'u WidthArg"
  sort_ports :: bool
  on_collision :: "OnError option"
  on_placer_error :: "OnError option"
  collision_check_layers :: "LayerInfo list option"
  starts :: "'u StepsArg"
  ends :: "'u StepsArg"
  start_angles :: "'u AnglesArg"
  end_angles :: "'u AnglesArg"

text \<open>
  The functions that \<open>route_bundle\<close> is given or calls in other modules, with the
  keyword arguments passed on to them.  All of them act on one state \<open>'w\<close>, which
  holds the cell \<open>c\<close> and whatever else they touch; a function that may raise returns an
  error or its value next to the state.  \<open>collisions\<close> is the body of
  \<open>check_collisions\<close> for a policy other than \<open>None\<close>.
\<close>

record ('u, 'p, 'w, 'r) bundle_env =
  to_dbu :: "'u \<Rightarrow> int"
  unit_is_zero :: "'u \<Rightarrow> bool"
  to_port :: "'p \<Rightarrow> RoutePort"
  routing_function ::
    "RoutePort list \<Rightarrow> RoutePort list \<Rightarrow> int list \<Rightarrow> Step list list \<Rightarrow> Step list list \<Rightarrow> 'w
       \<Rightarrow> (error + Router list) \<times> 'w"
  router_post_process_function ::
    "(RoutePort list \<Rightarrow> RoutePort list \<Rightarrow> Router list \<Rightarrow> 'w \<Rightarrow> (error + Router list) \<times> 'w) option"
  placer_function :: "RoutePort \<Rightarrow> RoutePort \<Rightarrow> Point list \<Rightarrow> 'w \<Rightarrow> (error + 'r) \<times> 'w"
  show_placer_errors :: "report_item list \<Rightarrow> 'w \<Rightarrow> 'w"
  logger_error :: "error \<Rightarrow> 'w \<Rightarrow> 'w"
  collisions ::
    "'p list \<Rightarrow> 'p list \<Rightarrow> Router list \<Rightarrow> 'r list \<Rightarrow> OnError \<Rightarrow> LayerInfo list option \<Rightarrow> 'w
       \<Rightarrow> error option \<times> 'w"

definition normalize_angles :: "('u \<Rightarrow> int) \<Rightarrow> 'u AnglesArg \<Rightarrow> int AnglesArg" where
  "normalize_angles dbu a =
     (case a of
        AnglesNone \<Rightarrow> AnglesNone
      | AnglesUnit x \<Rightarrow> AnglesUnit (dbu x)
      | AnglesList xs \<Rightarrow> AnglesList (map dbu xs))"

text \<open>An empty list of any kind is the Python value \<open>[]\<close>, which counts as no steps.\<close>

definition normalize_steps :: "('u \<Rightarrow> int) \<Rightarrow> nat \<Rightarrow> 'u StepsArg \<Rightarrow> Step list list" where
  "normalize_steps dbu n s =
     (case s of
        StepsNone \<Rightarrow> replicate n []
      | StepsUnit d \<Rightarrow> replicate n [Straight (dbu d)]
      | StepsUnits ds \<Rightarrow> if ds = [] then replicate n [] else map (\<lambda>d. [Straight (dbu d)]) ds
      | StepsSteps st \<Rightarrow> if st = [] then replicate n [] else replicate n st
      | StepsLists ls \<Rightarrow> if ls = [] then replicate n [] else ls)"

text \<open>\<open>p.copy(post_trans=kdb.Trans(a - p.trans.angle))\<close>\<close>

definition turn_to :: "int \<Rightarrow> RoutePort \<Rightarrow> RoutePort" where
  "turn_to a p = RoutePort_copy p (Trans_new (a - angle (rp_trans p)) False (0, 0))"

definition rotate_start_ports :: "int AnglesArg \<Rightarrow> RoutePort list \<Rightarrow> error + RoutePort list" where
  "rotate_start_ports angles start_ports1 =
     (case angles of
        AnglesNone \<Rightarrow> Inr start_ports1
      | AnglesUnit a \<Rightarrow> Inr (map (turn_to a) start_ports1)
      | AnglesList as \<Rightarrow>
          if length as \<noteq> length start_ports1 then Inl ValueError
          else Inr (map (\<lambda>(a, p). turn_to a p) (zip as start_ports1)))"

text \<open>For a list of end angles the source takes the ports to turn from the start ports.\<close>

definition rotate_end_ports ::
  "int AnglesArg \<Rightarrow> RoutePort list \<Rightarrow> RoutePort list \<Rightarrow> error + RoutePort list" where
  "rotate_end_ports angles end_ports1 start_ports1 =
     (case angles of
        AnglesNone \<Rightarrow> Inr end_ports1
      | AnglesUnit a \<Rightarrow> Inr (map (turn_to a) end_ports1)
      | AnglesList as \<Rightarrow>
          if length as \<noteq> length end_ports1 then Inl ValueError
          else Inr (map (\<lambda>(a, p). turn_to a p) (zip as start_ports1)))"

text \<open>\<open>if route_width:\<close> is false for \<open>None\<close>, for a width of zero and for an empty list.\<close>

definition bundle_widths ::
  "('u, 'p, 'w, 'r) bundle_env \<Rightarrow> 'u WidthArg \<Rightarrow> RoutePort list \<Rightarrow> int list" where
  "bundle_widths E rw start_ports1 =
     (case rw of
        WidthNone \<Rightarrow> map rp_width start_ports1
      | WidthUnit x \<Rightarrow>
          if unit_is_zero E x then map rp_width start_ports1
          else replicate (length start_ports1) (to_dbu E x)
      | WidthList xs \<Rightarrow>
          if xs = [] then map rp_width start_ports1 else map (to_dbu E) xs)"

text \<open>
  The dictionaries from the transformations of the ports to the ports (a later port
  wins) and the loop that looks up the two ports of every router.
\<close>

definition trans_mapping :: "RoutePort list \<Rightarrow> (Trans \<rightharpoonup> RoutePort)" where
  "trans_mapping ports = map_of (rev (map (\<lambda>p. (rp_trans p, p)) ports))"

fun lookup_ports ::
  "(Trans \<rightharpoonup> RoutePort) \<Rightarrow> (Trans \<rightharpoonup> RoutePort) \<Rightarrow> Router list
     \<Rightarrow> error + (RoutePort list \<times> RoutePort list)" where
  "lookup_ports start_mapping end_mapping [] = Inr ([], [])"
| "lookup_ports start_mapping end_mapping (router # routers) =
     (case start_mapping (start_transformation router) of
        None \<Rightarrow> Inl KeyError
      | Some sp \<Rightarrow>
          (case end_mapping (end_transformation router) of
             None \<Rightarrow> Inl KeyError
           | Some ep \<Rightarrow>
               (case lookup_ports start_mapping end_mapping routers of
                  Inl e \<Rightarrow> Inl e
                | Inr (sps, eps) \<Rightarrow> Inr (sp # sps, ep # eps))))"

text \<open>
  The loop over the routers that calls the placer: a route that is placed is appended to
  \<open>routes\<close>, an exception is appended to \<open>placer_errors\<close> and the loop goes on.
\<close>

fun place_routes ::
  "(RoutePort \<Rightarrow> RoutePort \<Rightarrow> Point list \<Rightarrow> 'w \<Rightarrow> (error + 'r) \<times> 'w)
     \<Rightarrow> (Router \<times> RoutePort \<times> RoutePort) list
     \<Rightarrow> 'r list \<Rightarrow> error list \<Rightarrow> (RoutePort \<times> RoutePort \<times> Point list \<times> int) list \<Rightarrow> 'w
     \<Rightarrow> ('r list \<times> error list \<times> (RoutePort \<times> RoutePort \<times> Point list \<times> int) list) \<times> 'w" where
  "place_routes placer [] routes placer_errors error_routes w =
     ((routes, placer_errors, error_routes), w)"
| "place_routes placer ((router, ps, pe) # rest) routes placer_errors error_routes w =
     (case placer ps pe (start_pts router) w of
        (Inr route, w1) \<Rightarrow>
          place_routes placer rest (routes @ [route]) placer_errors error_routes w1
      | (Inl e, w1) \<Rightarrow>
          place_routes placer rest routes (placer_errors @ [e])
            (error_routes @ [(ps, pe, start_pts router, router_width router)]) w1)"

definition placer_report ::
  "error list \<Rightarrow> (RoutePort \<times> RoutePort \<times> Point list \<times> int) list \<Rightarrow> report_item list" where
  "placer_report placer_errors error_routes =
     map (\<lambda>(e, (ps, pe, pts, w)).
            \<lparr>ri_category = rp_name ps @ '' - '' @ rp_name pe, ri_error = e, ri_pts = pts,
             ri_path_width = (if w = 0 then rp_width ps else w)\<rparr>)
         (zip placer_errors error_routes)"

definition check_collisions ::
  "('u, 'p, 'w, 'r) bundle_env \<Rightarrow> ('u, 'p) route_bundle_kwargs \<Rightarrow> Router list \<Rightarrow> 'r list \<Rightarrow> 'w
     \<Rightarrow> error option \<times> 'w" where
  "check_collisions E kw routers routes w =
     (case on_collision kw of
        None \<Rightarrow> (None, w)
      | Some policy \<Rightarrow>
          collisions E (start_ports kw) (end_ports kw) routers routes policy
            (collision_check_layers kw) w)"

text \<open>The end of \<open>route_bundle\<close>: placing the routes, reporting and raising, checking for collisions.\<close>

definition place_and_check ::
  "('u, 'p, 'w, 'r) bundle_env \<Rightarrow> ('u, 'p) route_bundle_kwargs \<Rightarrow> Router list \<Rightarrow> RoutePort list
     \<Rightarrow> RoutePort list \<Rightarrow> 'w \<Rightarrow> (error + 'r list) \<times> 'w" where
  "place_and_check E kw routers pp_start_ports pp_end_ports w =
     (case place_routes (placer_function E) (zip routers (zip pp_start_ports pp_end_ports))
             [] [] [] w of
        ((routes, placer_errors, error_routes), w1) \<Rightarrow>
          (let w2 = (if placer_errors \<noteq> [] \<and> on_placer_error kw = Some On_show_error
                     then show_placer_errors E (placer_report placer_errors error_routes) w1
                     else w1)
           in if placer_errors \<noteq> [] \<and> on_placer_error kw \<noteq> None
              then (Inl PlacerError, foldl (\<lambda>s e. logger_error E e s) w2 placer_errors)
              else (case check_collisions E kw routers routes w2 of
                      (Some e, w3) \<Rightarrow> (Inl e, w3)
                    | (None, w3) \<Rightarrow> (Inr routes, w3))))"

text \<open>
  The first part of \<open>route_bundle\<close>, up to the call of the post process function: it
  ends the call early, with an exception or with the empty list, or it has the routers to
  place and the start and end port of each.
\<close>

definition bundle_routers ::
  "('u, 'p, 'w, 'r) bundle_env \<Rightarrow> ('u, 'p) route_bundle_kwargs \<Rightarrow> 'w
     \<Rightarrow> ((error + 'r list) + (Router list \<times> RoutePort list \<times> RoutePort list)) \<times> 'w" where
  "bundle_routers E kw w =
     (if start_ports kw = [] then (Inl (Inr []), w)
      else if length (start_ports kw) \<noteq> length (end_ports kw) then (Inl (Inl ValueError), w)
      else
        (let start_ports1 = map (to_port E) (start_ports kw);
             end_ports1 = map (to_port E) (end_ports kw);
             start_angles1 = normalize_angles (to_dbu E) (start_angles kw);
             end_angles1 = normalize_angles (to_dbu E) (end_angles kw);
             n = length start_ports1;
             starts1 = normalize_steps (to_dbu E) n (starts kw);
             ends1 = normalize_steps (to_dbu E) n (ends kw)
         in case rotate_start_ports start_angles1 start_ports1 of
              Inl e \<Rightarrow> (Inl (Inl e), w)
            | Inr start_ports2 \<Rightarrow>
                (case rotate_end_ports end_angles1 end_ports1 start_ports2 of
                   Inl e \<Rightarrow> (Inl (Inl e), w)
                 | Inr end_ports2 \<Rightarrow>
                     (let widths = bundle_widths E (route_width kw) start_ports2
                      in case routing_function E start_ports2 end_ports2 widths starts1 ends1 w of
                           (Inl e, w1) \<Rightarrow> (Inl (Inl e), w1)
                         | (Inr routers, w1) \<Rightarrow>
                             if routers = [] then (Inl (Inr []), w1)
                             else
                               (case lookup_ports (trans_mapping start_ports2)
                                       (trans_mapping end_ports2) routers of
                                  Inl e \<Rightarrow> (Inl (Inl e), w1)
                                | Inr (pp_start_ports, pp_end_ports) \<Rightarrow>
                                    (case router_post_process_function E of
                                       None \<Rightarrow> (Inr (routers, pp_start_ports, pp_end_ports), w1)
                                     | Some post \<Rightarrow>
                                         (case post pp_start_ports pp_end_ports routers w1 of
                                            (Inl e, w2) \<Rightarrow> (Inl (Inl e), w2)
                                          | (Inr routers2, w2) \<Rightarrow>
                                              (Inr (routers2, pp_start_ports, pp_end_ports),
                                               w2))))))))"

definition route_bundle ::
  "('u, 'p, 'w, 'r) bundle_env \<Rightarrow> ('u, 'p) route_bundle_kwargs \<Rightarrow> 'w \<Rightarrow> (error + 'r list) \<times> 'w" where
  "route_bundle E kw w =
     (case bundle_routers E kw w of
        (Inl result, w1) \<Rightarrow> (result, w1)
      | (Inr (routers, pp_start_ports, pp_end_ports), w1) \<Rightarrow>
          place_and_check E kw routers pp_start_ports pp_end_ports w1)"

section \<open>A bundle for evaluating examples\<close>

text \<open>
  A geometry whose polygons are symbols: the path with its width, and for the rails the
  outer path and the inner path.
\<close>

definition example_geometry :: "(Point list \<times> int) geometry" where
  "example_geometry =
     \<lparr>path_polygon = (\<lambda>pts w. (pts, w)),
      rails_region = (\<lambda>pts w sep. [(pts, w), (pts, sep)])\<rparr>"

text \<open>A router that joins every start port to its end port by the straight line.\<close>

definition example_routing ::
  "RoutePort list \<Rightarrow> RoutePort list \<Rightarrow> int list \<Rightarrow> Step list list \<Rightarrow> Step list list \<Rightarrow> 'w
     \<Rightarrow> (error + Router list) \<times> 'w" where
  "example_routing sps eps widths starts1 ends1 w =
     (Inr (map (\<lambda>((sp, ep), wd).
             \<lparr>start_transformation = rp_trans sp, end_transformation = rp_trans ep,
              start_pts = [disp (rp_trans sp), disp (rp_trans ep)], router_width = wd\<rparr>)
           (zip (zip sps eps) widths)), w)"

text \<open>
  The environment of a call with the dual rail placer and \<open>separation_rails = 2000\<close>.
  The state is the cell and the list of the errors logged.
\<close>

definition example_env ::
  "(int, RoutePort, (Point list \<times> int) route_cell \<times> error list, (Point list \<times> int) ManhattanRoute)
     bundle_env" where
  "example_env =
     \<lparr>to_dbu = (\<lambda>x. x),
      unit_is_zero = (\<lambda>x. x = 0),
      to_port = (\<lambda>p. p),
      routing_function = example_routing,
      router_post_process_function = None,
      placer_function = (\<lambda>ps pe pts (c, logged).
         case place_dual_rails example_geometry ps pe pts None None (Some 2000) [] c of
           (r, c1) \<Rightarrow> (r, (c1, logged))),
      show_placer_errors = (\<lambda>report s. s),
      logger_error = (\<lambda>e (c, logged). (c, logged @ [e])),
      collisions = (\<lambda>sps eps routers routes policy layers s. (None, s))\<rparr>"

definition example_port :: "string \<Rightarrow> int \<Rightarrow> Vector \<Rightarrow> int \<Rightarrow> RoutePort" where
  "example_port nm a pos w =
     \<lparr>rp_name = nm, rp_trans = Trans_new a False pos, rp_width = w, rp_layer_info = (1, 0)\<rparr>"

text \<open>Two routes: the ports of the first are 1000 wide, those of the second 3000.\<close>

definition example_kwargs :: "(int, RoutePort) route_bundle_kwargs" where
  "example_kwargs =
     \<lparr>start_ports = [example_port ''a1'' 0 (0, 0) 1000, example_port ''a2'' 0 (0, 5000) 3000],
      end_ports = [example_port ''b1'' 2 (50000, 0) 1000, example_port ''b2'' 2 (50000, 5000) 3000],
      route_width = WidthNone,
      sort_ports = False,
      on_collision = None,
      on_placer_error = Some On_error,
      collision_check_layers = None,
      starts = StepsNone,
      ends = StepsNone,
      start_angles = AnglesNone,
      end_angles = AnglesNone\<rparr>"

section \<open>The cache of parametric cells (kcell.py)\<close>

text \<open>
  What Python can hash: lists and dictionaries are not hashable, a tuple is when all its
  elements are; a cell and a callable are hashed by their identity.
\<close>

fun hashable :: "pyval \<Rightarrow> bool" where
  "hashable (VList xs) = False"
| "hashable (VDict d) = False"
| "hashable (VTuple xs) = list_all hashable xs"
| "hashable v = True"

text \<open>
  \<open>dict_to_frozen_set\<close>: \<open>frozenset(d.items())\<close> hashes every item, a tuple of the key
  and the value, and raises \<open>TypeError\<close> for an item that is not hashable.
\<close>

definition dict_to_frozen_set :: "(pyval \<times> pyval) list \<Rightarrow> error + pyval" where
  "dict_to_frozen_set d =
     (if list_all (\<lambda>(k, v). hashable (VTuple [k, v])) d
      then Inr (VFrozenset (fset_of_list (map (\<lambda>(k, v). VTuple [k, v]) d)))
      else Inl TypeError)"

text \<open>
  \<open>frozenset_to_dict\<close>: \<open>dict(fs)\<close> takes the elements in the order in which Python
  iterates over the frozen set, which is a parameter here.  Every element has to be a
  sequence of two items; a tuple or string of another length gives \<open>ValueError\<close>, a
  value that is no sequence \<open>TypeError\<close>.
\<close>

fun dict_item :: "(pyval fset \<Rightarrow> pyval list) \<Rightarrow> pyval \<Rightarrow> error + (pyval \<times> pyval)" where
  "dict_item iter (VTuple xs) = (case xs of [k, v] \<Rightarrow> Inr (k, v) | _ \<Rightarrow> Inl ValueError)"
| "dict_item iter (VStr s) = (case s of [a, b] \<Rightarrow> Inr (VStr [a], VStr [b]) | _ \<Rightarrow> Inl ValueError)"
| "dict_item iter (VFrozenset s) = (case iter s of [k, v] \<Rightarrow> Inr (k, v) | _ \<Rightarrow> Inl ValueError)"
| "dict_item iter v = Inl TypeError"

text \<open>A dictionary built from items: a key that comes again replaces the value in place.\<close>

definition dict_of_items :: "(pyval \<times> pyval) list \<Rightarrow> (pyval \<times> pyval) list" where
  "dict_of_items items = foldl (\<lambda>d (k, v). AList.update k v d) [] items"

definition frozenset_to_dict :: "(pyval fset \<Rightarrow> pyval list) \<Rightarrow> pyval fset \<Rightarrow> error + pyval" where
  "frozenset_to_dict iter fs =
     (case sequence_err (map (dict_item iter) (iter fs)) of
        Inl e \<Rightarrow> Inl e
      | Inr items \<Rightarrow> Inr (VDict (dict_of_items items)))"

text \<open>
  What the decorator is given and what it uses of Python: the signature of the cell
  function (the names of its parameters with their defaults), the cell function, the two
  flags, the size of the cache; the name that \<open>get_component_name\<close> builds, \<open>str\<close> of a
  value, the order of iteration over a frozen set, and the name that the backend gives to
  the duplicate of a cell.  The cell function acts on the store of the cell objects, a
  list in which the identity of a cell is its position, and returns the identity of a cell.
  A cell function that calls its own decorated function again is not modelled.
\<close>

type_synonym params = "(string \<times> pyval) list"

record autocell_env =
  ac_signature :: params
  ac_function :: "params \<Rightarrow> KCell list \<Rightarrow> (error + nat) \<times> KCell list"
  ac_set_name :: bool
  ac_set_settings :: bool
  ac_maxsize :: nat
  ac_component_name :: "params \<Rightarrow> string"
  ac_str :: "pyval \<Rightarrow> string"
  ac_iter :: "pyval fset \<Rightarrow> pyval list"
  ac_dup_name :: "string \<Rightarrow> string"

text \<open>The state: the store of the cells and the cache, a dictionary in the order of insertion.\<close>

record autocell_state =
  st_cells :: "KCell list"
  st_cache :: "(params \<times> nat) list"

text \<open>
  The parameters of a call: the defaults, overwritten by the positional arguments (as
  many as there are parameters) and then by the keyword arguments.
\<close>

definition bind_params :: "params \<Rightarrow> pyval list \<Rightarrow> params \<Rightarrow> params" where
  "bind_params sg args kwargs =
     (let params0 = sg;
          arg_par = take (length args) sg;
          params1 = foldl (\<lambda>ps (k, a). AList.update k a ps) params0 (zip (map fst arg_par) args)
      in foldl (\<lambda>ps (k, v). AList.update k v ps) params1 kwargs)"

text \<open>The loop that replaces every parameter that is a dictionary by its frozen set.\<close>

fun freeze_params :: "params \<Rightarrow> error + params" where
  "freeze_params [] = Inr []"
| "freeze_params ((key, val) # ps) =
     (case (case val of VDict d \<Rightarrow> dict_to_frozen_set d | _ \<Rightarrow> Inr val) of
        Inl e \<Rightarrow> Inl e
      | Inr val1 \<Rightarrow>
          (case freeze_params ps of
             Inl e \<Rightarrow> Inl e
           | Inr ps1 \<Rightarrow> Inr ((key, val1) # ps1)))"

text \<open>The loop of \<open>wrapped_cell\<close> that turns every frozen set into a dictionary again.\<close>

fun thaw_params :: "(pyval fset \<Rightarrow> pyval list) \<Rightarrow> params \<Rightarrow> error + params" where
  "thaw_params iter [] = Inr []"
| "thaw_params iter ((key, val) # ps) =
     (case (case val of VFrozenset fs \<Rightarrow> frozenset_to_dict iter fs | _ \<Rightarrow> Inr val) of
        Inl e \<Rightarrow> Inl e
      | Inr val1 \<Rightarrow>
          (case thaw_params iter ps of
             Inl e \<Rightarrow> Inl e
           | Inr ps1 \<Rightarrow> Inr ((key, val1) # ps1)))"

text \<open>
  Modelled from the spec: the cache is an object of the library cachetools.  The key of a
  call is the tuple of its keyword arguments sorted by name; looking it up hashes it,
  which raises \<open>TypeError\<close> for a value that is not hashable.  An entry takes one unit of
  the capacity; a new key evicts the oldest entries until there is room, and a cache of
  capacity 0 stores nothing.
\<close>

definition hashkey :: "params \<Rightarrow> error + params" where
  "hashkey ps =
     (if list_all (\<lambda>(k, v). hashable v) ps then Inr (sort_key fst ps) else Inl TypeError)"

definition cache_setitem :: "nat \<Rightarrow> (params \<times> nat) list \<Rightarrow> params \<Rightarrow> nat \<Rightarrow> (params \<times> nat) list" where
  "cache_setitem maxsize cache k v =
     (if 1 > maxsize then cache
      else
        (let cache1 = (if k \<notin> fst ` set cache then drop (length cache + 1 - maxsize) cache
                       else cache)
         in AList.update k v cache1))"

text \<open>The canonical form of the arguments of a call: the key under which its cell is cached.\<close>

definition cache_key :: "autocell_env \<Rightarrow> pyval list \<Rightarrow> params \<Rightarrow> error + params" where
  "cache_key A args kwargs =
     (case freeze_params (bind_params (ac_signature A) args kwargs) of
        Inl e \<Rightarrow> Inl e
      | Inr ps \<Rightarrow> hashkey ps)"

text \<open>
  \<open>KCell.copy\<close>: a new cell object for the duplicate of the backend cell, with copies of
  the ports and with the same instances, without settings and info, and not locked.
\<close>

definition KCell_copy :: "(string \<Rightarrow> string) \<Rightarrow> KCell \<Rightarrow> KCell" where
  "KCell_copy dup self =
     KCell (dup (kc_name self)) (kc_shapes self) (kc_properties self)
       (map (\<lambda>p. Port_copy p R0) (kc_ports self))
       (map (\<lambda>inst. Instance (inst_cell inst) (inst_trans inst)) (kc_insts self))
       [] False []"

text \<open>
  The loop that writes the settings into the properties of the backend cell: every
  setting takes the first free index from \<open>i\<close> on.
\<close>

definition next_free_property :: "(nat \<times> string) list \<Rightarrow> nat \<Rightarrow> nat" where
  "next_free_property props i =
     (case find (\<lambda>j. map_of props j = None) [i..<i + length props + 1] of
        Some j \<Rightarrow> j
      | None \<Rightarrow> i + length props + 1)"

fun set_properties ::
  "(pyval \<Rightarrow> string) \<Rightarrow> KCell list \<Rightarrow> (string \<times> pyval) list \<Rightarrow> nat \<Rightarrow> (nat \<times> string) list
     \<Rightarrow> (nat \<times> string) list" where
  "set_properties str cells [] i props = props"
| "set_properties str cells ((nm, setting) # settings) i props =
     (let j = next_free_property props i;
          text = (case setting of
                    VCell r \<Rightarrow> nm @ '': '' @ kc_name (cells ! r)
                  | _ \<Rightarrow> nm @ '': '' @ str setting)
      in set_properties str cells settings (j + 1) (AList.update j text props))"

text \<open>
  The body of \<open>wrapped_cell\<close> after the call of the cell function, for the cell that the
  function returned (or its copy): name, settings, properties, lock.
\<close>

definition publish :: "autocell_env \<Rightarrow> params \<Rightarrow> KCell list \<Rightarrow> KCell \<Rightarrow> KCell" where
  "publish A ps cells cell =
     (let nm = (if ac_set_name A then ac_component_name A ps else kc_name cell);
          settings = (if ac_set_settings A
                      then foldl (\<lambda>d (k, v). AList.update k v d) (kc_settings cell) ps
                      else kc_settings cell);
          props = set_properties (ac_str A) cells settings 0 (kc_properties cell)
      in KCell nm (kc_shapes cell) props (kc_ports cell) (kc_insts cell) settings True
           (kc_info cell))"

definition wrapped_cell ::
  "autocell_env \<Rightarrow> params \<Rightarrow> KCell list \<Rightarrow> (error + nat) \<times> KCell list" where
  "wrapped_cell A ps cells =
     (case thaw_params (ac_iter A) ps of
        Inl e \<Rightarrow> (Inl e, cells)
      | Inr ps1 \<Rightarrow>
          (case ac_function A ps1 cells of
             (Inl e, cells1) \<Rightarrow> (Inl e, cells1)
           | (Inr r0, cells1) \<Rightarrow>
               if r0 \<ge> length cells1 then (Inl AttributeError, cells1)
               else
                 (let (r, cells2) =
                        (if kc_locked (cells1 ! r0)
                         then (length cells1, cells1 @ [KCell_copy (ac_dup_name A) (cells1 ! r0)])
                         else (r0, cells1))
                  in (Inr r, cells2[r := publish A ps1 cells2 (cells2 ! r)]))))"

text \<open>
  \<open>wrapper_autocell\<close>: a call of the decorated function with positional and keyword
  arguments.
\<close>

definition wrapper_autocell ::
  "autocell_env \<Rightarrow> pyval list \<Rightarrow> params \<Rightarrow> autocell_state \<Rightarrow> (error + nat) \<times> autocell_state" where
  "wrapper_autocell A args kwargs st =
     (case freeze_params (bind_params (ac_signature A) args kwargs) of
        Inl e \<Rightarrow> (Inl e, st)
      | Inr ps \<Rightarrow>
          (case hashkey ps of
             Inl e \<Rightarrow> (Inl e, st)
           | Inr k \<Rightarrow>
               (case map_of (st_cache st) k of
                  Some r \<Rightarrow> (Inr r, st)
                | None \<Rightarrow>
                    (case wrapped_cell A ps (st_cells st) of
                       (Inl e, cells1) \<Rightarrow> (Inl e, st\<lparr>st_cells := cells1\<rparr>)
                     | (Inr r, cells1) \<Rightarrow>
                         (Inr r, \<lparr>st_cells = cells1,
                                  st_cache = cache_setitem (ac_maxsize A) (st_cache st) k r\<rparr>)))))"

text \<open>
  The cells of the cache are cells of the store and locked, and no cell is cached twice.
  This holds for the empty cache and every call keeps it, for a cell function that
  leaves the cells of the store in place and the locked ones locked.
\<close>

definition cache_inv :: "autocell_state \<Rightarrow> bool" where
  "cache_inv st \<longleftrightarrow>
     distinct (map fst (st_cache st)) \<and> distinct (map snd (st_cache st))
     \<and> list_all (\<lambda>(k, r). r < length (st_cells st) \<and> kc_locked (st_cells st ! r)) (st_cache st)"

definition keeps_locked_cells :: "(params \<Rightarrow> KCell list \<Rightarrow> (error + nat) \<times> KCell list) \<Rightarrow> bool" where
  "keeps_locked_cells f \<longleftrightarrow>
     (\<forall>ps cells. length cells \<le> length (snd (f ps cells))
        \<and> (\<forall>r < length cells. kc_locked (cells ! r) \<longrightarrow> kc_locked (snd (f ps cells) ! r)))"

text \<open>
  Two values, and two lists of keyword arguments, that are equal up to the order of the
  items of a dictionary.
\<close>

fun dict_order_equal :: "pyval \<Rightarrow> pyval \<Rightarrow> bool" where
  "dict_order_equal (VDict d) (VDict d') = (set d = set d')"
| "dict_order_equal v v' = (v = v')"

definition params_dict_order_equal :: "params \<Rightarrow> params \<Rightarrow> bool" where
  "params_dict_order_equal ps ps' =
     list_all2 (\<lambda>(k, v) (k', v'). k = k' \<and> dict_order_equal v v') ps ps'"

section \<open>Properties of cross sections\<close>

lemma floor_half_twice: "((w::int) div 2) * 2 = w \<longleftrightarrow> even w"
  by presburger

lemma validate_enclosure_main_layer_odd:
  "odd (xs_width self) \<Longrightarrow> validate_enclosure_main_layer self = Inl ValueError"
  by (simp add: validate_enclosure_main_layer_def floor_half_twice)

lemma validate_enclosure_main_layer_Inr:
  "validate_enclosure_main_layer self = Inr s \<Longrightarrow> s = self \<and> even (xs_width self)"
  by (auto simp: validate_enclosure_main_layer_def floor_half_twice split: if_splits)

lemma validate_width_Inr:
  "validate_width self = Inr s \<Longrightarrow> s = self \<and> 0 < xs_width self"
  by (auto simp: validate_width_def split: if_splits)

lemma xs_width_set_name [simp]: "xs_width (set_name data) = xs_width data"
  by (simp add: set_name_def)

text \<open>
  C9.  Constructing a \<open>SymmetricalCrossSection\<close> with a width that is not positive or
  that is odd raises a \<open>ValueError\<close> and yields no cross section; every cross section
  that the constructor does return has the requested width, and that width is positive
  and even.
\<close>

theorem C9_cross_section_width_validated:
  "(w0 \<le> 0 \<or> odd w0 \<longrightarrow>
      SymmetricalCrossSection_init w0 enclosure nm bbox_sections = Inl ValueError)
   \<and> (\<forall>cs. SymmetricalCrossSection_init w0 enclosure nm bbox_sections = Inr cs \<longrightarrow>
         xs_width cs = w0 \<and> 0 < xs_width cs \<and> even (xs_width cs))"
proof (rule conjI; rule impI allI)
  assume bad: "w0 \<le> 0 \<or> odd w0"
  let ?self = "set_name \<lparr>xs_width = w0, xs_enclosure = enclosure,
                  xs_name = name_or_default nm enclosure w0,
                  xs_radius = None, xs_radius_min = None,
                  xs_bbox_sections = (case bbox_sections of None \<Rightarrow> [] | Some b \<Rightarrow> b)\<rparr>"
  have w: "xs_width ?self = w0" by simp
  show "SymmetricalCrossSection_init w0 enclosure nm bbox_sections = Inl ValueError"
  proof (cases "validate_enclosure_main_layer ?self")
    case (Inl e)
    then have "e = ValueError"
      by (auto simp: validate_enclosure_main_layer_def split: if_splits)
    with Inl show ?thesis by (simp add: SymmetricalCrossSection_init_def Let_def)
  next
    case (Inr s)
    then have s: "s = ?self" and ev: "even w0"
      using validate_enclosure_main_layer_Inr [OF Inr] w by auto
    with bad have "w0 \<le> 0" by blast
    then have "validate_width ?self = Inl ValueError"
      using w by (simp add: validate_width_def)
    with Inr s show ?thesis by (simp add: SymmetricalCrossSection_init_def Let_def)
  qed
next
  fix cs
  show "SymmetricalCrossSection_init w0 enclosure nm bbox_sections = Inr cs \<longrightarrow>
         xs_width cs = w0 \<and> 0 < xs_width cs \<and> even (xs_width cs)"
  proof
  assume ok: "SymmetricalCrossSection_init w0 enclosure nm bbox_sections = Inr cs"
  let ?self = "set_name \<lparr>xs_width = w0, xs_enclosure = enclosure,
                  xs_name = name_or_default nm enclosure w0,
                  xs_radius = None, xs_radius_min = None,
                  xs_bbox_sections = (case bbox_sections of None \<Rightarrow> [] | Some b \<Rightarrow> b)\<rparr>"
  have w: "xs_width ?self = w0" by simp
  from ok obtain s where v1: "validate_enclosure_main_layer ?self = Inr s"
    and v2: "validate_width s = Inr cs"
    by (auto simp: SymmetricalCrossSection_init_def Let_def split: sum.splits)
  from validate_enclosure_main_layer_Inr [OF v1] have s: "s = ?self" and ev: "even w0"
    using w by auto
  from validate_width_Inr [OF v2] s w have "cs = ?self" and "0 < w0" by auto
  then show "xs_width cs = w0 \<and> 0 < xs_width cs \<and> even (xs_width cs)"
    using ev w by simp
  qed
qed


theorem C9_cross_section_width_validated_witness:
  "SymmetricalCrossSection_init 501 \<lparr>enc_name = ''WGSTD'', main_layer = Some (1, 0)\<rparr> None None
     = Inl ValueError
   \<and> SymmetricalCrossSection_init 0 \<lparr>enc_name = ''WGSTD'', main_layer = Some (1, 0)\<rparr> None None
     = Inl ValueError
   \<and> (\<exists>cs. SymmetricalCrossSection_init 500 \<lparr>enc_name = ''WGSTD'', main_layer = Some (1, 0)\<rparr>
              (Some ''wg'') None = Inr cs
           \<and> xs_width cs = 500 \<and> 0 < xs_width cs \<and> even (xs_width cs))"
proof -
  let ?e = "\<lparr>enc_name = ''WGSTD'', main_layer = Some (1, 0)\<rparr>"
  have odd_case: "SymmetricalCrossSection_init 501 ?e None None = Inl ValueError"
    using C9_cross_section_width_validated [of 501 ?e None None] by simp
  have zero_case: "SymmetricalCrossSection_init 0 ?e None None = Inl ValueError"
    using C9_cross_section_width_validated [of 0 ?e None None] by simp
  obtain cs where built: "SymmetricalCrossSection_init 500 ?e (Some ''wg'') None = Inr cs"
    by (simp add: SymmetricalCrossSection_init_def validate_enclosure_main_layer_def
        validate_width_def set_name_def name_or_default_def)
  from built C9_cross_section_width_validated [of 500 ?e "Some ''wg''" None]
  have "xs_width cs = 500 \<and> 0 < xs_width cs \<and> even (xs_width cs)" by blast
  with odd_case zero_case built show ?thesis by blast
qed

section \<open>The algebra of transformations\<close>


lemma mod4_cases: "(a::int) mod 4 = 0 \<or> a mod 4 = 1 \<or> a mod 4 = 2 \<or> a mod 4 = 3"
  by presburger

lemma rotate_quarter_add:
  "rotate_quarter (a + b) v = rotate_quarter a (rotate_quarter b v)"
proof -
  obtain x y where v: "v = (x, y)" by (cases v)
  have s: "(a + b) mod 4 = (a mod 4 + b mod 4) mod 4" by presburger
  from mod4_cases [of a] mod4_cases [of b] show ?thesis
    unfolding rotate_quarter_def v s by (elim disjE) simp_all
qed

lemma rotate_quarter_mod [simp]: "rotate_quarter (a mod 4) v = rotate_quarter a v"
  by (auto simp: rotate_quarter_def split: prod.splits)

lemma rotate_quarter_flip:
  "rotate_quarter a (x, - y) = (case rotate_quarter (- a) (x, y) of (u, w) \<Rightarrow> (u, - w))"
proof -
  have "(- a) mod 4 = (4 - a mod 4) mod 4" by presburger
  with mod4_cases [of a] show ?thesis
    unfolding rotate_quarter_def by (elim disjE) simp_all
qed

lemma rotate_mirror_mul:
  "rotate_mirror (Trans_mul a b) v = rotate_mirror a (rotate_mirror b v)"
proof -
  obtain x y where v: "v = (x, y)" by (cases v)
  show ?thesis
  proof (cases "is_mirror a")
    case False
    then show ?thesis
      by (simp add: rotate_mirror_def Trans_mul_def rotate_quarter_add v)
  next
    case True
    obtain u w where r: "rotate_quarter (angle b) (if is_mirror b then (x, - y) else (x, y)) = (u, w)"
      by (cases "rotate_quarter (angle b) (if is_mirror b then (x, - y) else (x, y))")
    have "rotate_quarter (angle a - angle b) (if is_mirror b then (x, y) else (x, - y))
        = rotate_quarter (angle a) (u, - w)"
    proof -
      have "rotate_quarter (angle a - angle b) (if is_mirror b then (x, y) else (x, - y))
          = rotate_quarter (angle a) (rotate_quarter (- angle b) (if is_mirror b then (x, y) else (x, - y)))"
        using rotate_quarter_add [of "angle a" "- angle b"] by simp
      moreover have "rotate_quarter (- angle b) (if is_mirror b then (x, y) else (x, - y)) = (u, - w)"
        using r rotate_quarter_flip [of "- angle b" x y] rotate_quarter_flip [of "angle b" x y]
        by (auto split: prod.splits if_splits)
      ultimately show ?thesis by simp
    qed
    with True r show ?thesis
      by (cases "is_mirror b") (simp_all add: rotate_mirror_def Trans_mul_def v)
  qed
qed

lemma rotate_quarter_vadd:
  "rotate_quarter a (vadd u v) = vadd (rotate_quarter a u) (rotate_quarter a v)"
  using mod4_cases [of a]
  by (cases u, cases v) (auto simp: rotate_quarter_def vadd_def)

lemma rotate_mirror_vadd:
  "rotate_mirror t (vadd u v) = vadd (rotate_mirror t u) (rotate_mirror t v)"
proof -
  have "(case vadd u v of (x, y) \<Rightarrow> if is_mirror t then (x, - y) else (x, y))
      = vadd (case u of (x, y) \<Rightarrow> if is_mirror t then (x, - y) else (x, y))
             (case v of (x, y) \<Rightarrow> if is_mirror t then (x, - y) else (x, y))"
    by (cases u, cases v) (simp add: vadd_def)
  then show ?thesis
    by (simp add: rotate_mirror_def rotate_quarter_vadd)
qed

lemma vadd_assoc: "vadd (vadd u v) w = vadd u (vadd v w)"
  by (simp add: vadd_def)

lemma vadd_commute: "vadd u v = vadd v u"
  by (simp add: vadd_def)

lemma Trans_apply_mul:
  "Trans_apply (Trans_mul a b) v = Trans_apply a (Trans_apply b v)"
proof -
  have "Trans_apply (Trans_mul a b) v
      = vadd (rotate_mirror (Trans_mul a b) v) (vadd (disp a) (rotate_mirror a (disp b)))"
    by (simp add: Trans_apply_def Trans_mul_def)
  also have "\<dots> = vadd (rotate_mirror a (rotate_mirror b v)) (vadd (rotate_mirror a (disp b)) (disp a))"
    by (simp add: rotate_mirror_mul vadd_commute)
  also have "\<dots> = vadd (rotate_mirror a (vadd (rotate_mirror b v) (disp b))) (disp a)"
    by (simp add: rotate_mirror_vadd vadd_assoc)
  finally show ?thesis by (simp add: Trans_apply_def)
qed


lemma rotate_mirror_R0 [simp]: "rotate_mirror R0 v = v"
  by (cases v) (simp add: rotate_mirror_def rotate_quarter_def R0_def Trans_new_def)

lemma Trans_mul_angle_mirror_inverted:
  "angle (Trans_mul (Trans_inverted t) t) = 0 \<and> \<not> is_mirror (Trans_mul (Trans_inverted t) t)"
proof -
  have "(angle t mod 4 - angle t) mod 4 = 0" "(- angle t mod 4 + angle t) mod 4 = 0"
    by presburger+
  then show ?thesis
    by (simp add: Trans_mul_def Trans_inverted_def Let_def)
qed

lemma rotate_mirror_cong:
  "angle s = angle t \<Longrightarrow> is_mirror s = is_mirror t \<Longrightarrow> rotate_mirror s v = rotate_mirror t v"
  by (simp add: rotate_mirror_def)

lemma rotate_mirror_inverted:
  "rotate_mirror (Trans_inverted t) (rotate_mirror t v) = v"
proof -
  have "rotate_mirror (Trans_inverted t) (rotate_mirror t v)
      = rotate_mirror (Trans_mul (Trans_inverted t) t) v"
    by (simp add: rotate_mirror_mul)
  also have "\<dots> = rotate_mirror R0 v"
    using Trans_mul_angle_mirror_inverted [of t]
    by (intro rotate_mirror_cong) (simp_all add: R0_def Trans_new_def)
  finally show ?thesis by simp
qed

lemma vadd_vneg_cancel: "vadd (vadd u v) (vneg v) = u"
  by (simp add: vadd_def vneg_def)

lemma Trans_apply_inverted:
  "Trans_apply (Trans_inverted t) (Trans_apply t v) = v"
proof -
  let ?f = "\<lparr>angle = (if is_mirror t then angle t else - angle t) mod 4,
               is_mirror = is_mirror t, disp = (0, 0)\<rparr>"
  have rm: "rotate_mirror (Trans_inverted t) u = rotate_mirror ?f u" for u
    by (intro rotate_mirror_cong) (simp_all add: Trans_inverted_def Let_def)
  have "Trans_apply (Trans_inverted t) (Trans_apply t v)
      = vadd (rotate_mirror ?f (vadd (rotate_mirror t v) (disp t))) (vneg (rotate_mirror ?f (disp t)))"
    by (simp add: Trans_apply_def rm) (simp add: Trans_inverted_def Let_def)
  also have "\<dots> = rotate_mirror ?f (rotate_mirror t v)"
    by (simp add: rotate_mirror_vadd vadd_vneg_cancel)
  also have "\<dots> = v"
    using rotate_mirror_inverted [of t v] by (simp add: rm)
  finally show ?thesis .
qed

lemma Trans_mul_assoc: "Trans_mul (Trans_mul a b) c = Trans_mul a (Trans_mul b c)"
proof -
  have ang: "angle (Trans_mul (Trans_mul a b) c) = angle (Trans_mul a (Trans_mul b c))"
    by (cases "is_mirror a"; cases "is_mirror b")
       (simp_all add: Trans_mul_def mod_simps algebra_simps)
  have mir: "is_mirror (Trans_mul (Trans_mul a b) c) = is_mirror (Trans_mul a (Trans_mul b c))"
    by (auto simp: Trans_mul_def)
  have "disp (Trans_mul (Trans_mul a b) c)
      = vadd (vadd (disp a) (rotate_mirror a (disp b))) (rotate_mirror (Trans_mul a b) (disp c))"
    by (simp add: Trans_mul_def)
  also have "\<dots> = vadd (disp a) (rotate_mirror a (vadd (disp b) (rotate_mirror b (disp c))))"
    by (simp add: rotate_mirror_mul rotate_mirror_vadd vadd_assoc)
  also have "\<dots> = disp (Trans_mul a (Trans_mul b c))"
    by (simp add: Trans_mul_def)
  finally show ?thesis using ang mir by simp
qed

lemma Trans_mul_inverted_left:
  "Trans_mul (Trans_inverted t) t = R0"
proof -
  have "disp (Trans_mul (Trans_inverted t) t) = (0, 0)"
    by (simp add: Trans_mul_def) (simp add: Trans_inverted_def Let_def vadd_def vneg_def rotate_mirror_def)
  with Trans_mul_angle_mirror_inverted [of t] show ?thesis
    by (simp add: R0_def Trans_new_def)
qed

lemma Trans_mul_R0_right: "wf_Trans t \<Longrightarrow> Trans_mul t R0 = t"
  by (cases "is_mirror t")
     (simp_all add: Trans_mul_def R0_def Trans_new_def wf_Trans_def vadd_def rotate_mirror_def
        rotate_quarter_def split: if_splits)

lemma wf_Trans_mul [simp]: "wf_Trans (Trans_mul a b)"
  by (simp add: wf_Trans_def Trans_mul_def)


section \<open>Properties of the port hash\<close>

lemma to_bytes8_in_range:
  "0 \<le> n \<Longrightarrow> n < 2 ^ 64 \<Longrightarrow> to_bytes8 n = Inr (be_bytes8 (nat n))"
  by (simp add: to_bytes8_def)

lemma to_bytes8_out_of_range:
  "n < 0 \<or> 2 ^ 64 \<le> n \<Longrightarrow> to_bytes8 n = Inl OverflowError"
  by (simp add: to_bytes8_def)

lemma IPortLike_hash_in_range:
  assumes "0 \<le> width p" "width p < 2 ^ 64" "0 \<le> layer p" "layer p < 2 ^ 64"
  shows "IPortLike_hash B p =
           Inr (sha3_512 B (encode_utf8 (name p) @ hash_bytes (Trans_hash B (trans p))
                  @ be_bytes8 (nat (width p)) @ encode_utf8 (port_type p)
                  @ be_bytes8 (nat (layer p))))"
  using assms by (simp add: IPortLike_hash_def to_bytes8_in_range Let_def)

lemma IPortLike_hash_out_of_range:
  assumes "width p < 0 \<or> 2 ^ 64 \<le> width p \<or> layer p < 0 \<or> 2 ^ 64 \<le> layer p"
  shows "IPortLike_hash B p = Inl OverflowError"
proof (cases "width p < 0 \<or> 2 ^ 64 \<le> width p")
  case True
  then show ?thesis
    by (simp add: IPortLike_hash_def to_bytes8_out_of_range Let_def)
next
  case False
  with assms have "layer p < 0 \<or> 2 ^ 64 \<le> layer p" by blast
  then have "to_bytes8 (layer p) = Inl OverflowError"
    by (rule to_bytes8_out_of_range)
  moreover from False have "to_bytes8 (width p) = Inr (be_bytes8 (nat (width p)))"
    by (simp add: to_bytes8_def)
  ultimately show ?thesis
    by (simp add: IPortLike_hash_def Let_def)
qed

text \<open>
  C6 (as the code has it).  For an integer based port whose width and layer are numbers of
  the unsigned eight byte range, \<open>hash()\<close> is the digest of the name, the eight bytes
  of the hash of the transformation, the width, the port type and the layer, in this
  order; outside that range \<open>hash()\<close> raises \<open>OverflowError\<close>.  Two ports that
  agree in the five attributes have the same hash, and the hashes of the ports of a
  collection do not depend on the order in which the ports were inserted.
\<close>

theorem C6_port_hash_digest:
  "(0 \<le> width p \<and> width p < 2 ^ 64 \<and> 0 \<le> layer p \<and> layer p < 2 ^ 64 \<longrightarrow>
      IPortLike_hash B p =
        Inr (sha3_512 B (encode_utf8 (name p) @ hash_bytes (Trans_hash B (trans p))
               @ be_bytes8 (nat (width p)) @ encode_utf8 (port_type p)
               @ be_bytes8 (nat (layer p)))))
   \<and> (width p < 0 \<or> 2 ^ 64 \<le> width p \<or> layer p < 0 \<or> 2 ^ 64 \<le> layer p \<longrightarrow>
      IPortLike_hash B p = Inl OverflowError)
   \<and> (name p = name q \<and> trans p = trans q \<and> width p = width q
        \<and> port_type p = port_type q \<and> layer p = layer q \<longrightarrow>
      IPortLike_hash B p = IPortLike_hash B q)
   \<and> (mset ps = mset qs \<longrightarrow>
      mset (map (IPortLike_hash B) ps) = mset (map (IPortLike_hash B) qs))"
proof (intro conjI impI)
  assume "0 \<le> width p \<and> width p < 2 ^ 64 \<and> 0 \<le> layer p \<and> layer p < 2 ^ 64"
  then show "IPortLike_hash B p =
        Inr (sha3_512 B (encode_utf8 (name p) @ hash_bytes (Trans_hash B (trans p))
               @ be_bytes8 (nat (width p)) @ encode_utf8 (port_type p)
               @ be_bytes8 (nat (layer p))))"
    by (simp add: IPortLike_hash_in_range)
next
  assume "width p < 0 \<or> 2 ^ 64 \<le> width p \<or> layer p < 0 \<or> 2 ^ 64 \<le> layer p"
  then show "IPortLike_hash B p = Inl OverflowError"
    by (rule IPortLike_hash_out_of_range)
next
  assume "name p = name q \<and> trans p = trans q \<and> width p = width q
        \<and> port_type p = port_type q \<and> layer p = layer q"
  then have "p = q" by (cases p, cases q) simp
  then show "IPortLike_hash B p = IPortLike_hash B q"
    by simp
next
  assume "mset ps = mset qs"
  then have "image_mset (IPortLike_hash B) (mset ps) = image_mset (IPortLike_hash B) (mset qs)"
    by simp
  then show "mset (map (IPortLike_hash B) ps) = mset (map (IPortLike_hash B) qs)"
    by simp
qed

theorem C6_port_hash_digest_witness:
  "(\<forall>B.
     IPortLike_hash B \<lparr>name = ''o1'', trans = R180, width = 500, layer = 0, port_type = ''optical''\<rparr>
       = Inr (sha3_512 B (encode_utf8 ''o1'' @ hash_bytes (Trans_hash B R180) @ be_bytes8 500
                @ encode_utf8 ''optical'' @ be_bytes8 0))
     \<and> IPortLike_hash B \<lparr>name = ''o1'', trans = R180, width = - 1, layer = 0, port_type = ''optical''\<rparr>
       = Inl OverflowError
     \<and> mset (map (IPortLike_hash B)
          [\<lparr>name = ''o1'', trans = R180, width = 500, layer = 0, port_type = ''optical''\<rparr>,
           \<lparr>name = ''o2'', trans = R0, width = 500, layer = 0, port_type = ''optical''\<rparr>])
       = mset (map (IPortLike_hash B)
          [\<lparr>name = ''o2'', trans = R0, width = 500, layer = 0, port_type = ''optical''\<rparr>,
           \<lparr>name = ''o1'', trans = R180, width = 500, layer = 0, port_type = ''optical''\<rparr>]))"
proof (intro allI conjI)
  fix B :: backend
  let ?p = "\<lparr>name = ''o1'', trans = R180, width = 500, layer = 0, port_type = ''optical''\<rparr>"
  let ?q = "\<lparr>name = ''o2'', trans = R0, width = 500, layer = 0, port_type = ''optical''\<rparr>"
  let ?n = "\<lparr>name = ''o1'', trans = R180, width = - 1, layer = 0, port_type = ''optical''\<rparr>"
  show "IPortLike_hash B ?p
       = Inr (sha3_512 B (encode_utf8 ''o1'' @ hash_bytes (Trans_hash B R180) @ be_bytes8 500
                @ encode_utf8 ''optical'' @ be_bytes8 0))"
    using C6_port_hash_digest [where p = ?p and B = B and q = ?p and ps = "[]" and qs = "[]"]
    by simp
  show "IPortLike_hash B ?n = Inl OverflowError"
    using C6_port_hash_digest [where p = ?n and B = B and q = ?n and ps = "[]" and qs = "[]"]
    by simp
  show "mset (map (IPortLike_hash B) [?p, ?q]) = mset (map (IPortLike_hash B) [?q, ?p])"
    using C6_port_hash_digest [where p = ?p and B = B and q = ?p
        and ps = "[?p, ?q]" and qs = "[?q, ?p]"]
    by simp
qed

text \<open>
  A port of width \<open>2 ^ 64\<close> is an integer based port with a positive width, and its
  \<open>hash()\<close> raises instead of returning a digest.
\<close>

theorem C6_port_hash_counterexample:
  "IPortLike_hash example_backend
     \<lparr>name = ''o1'', trans = R0, width = 2 ^ 64, layer = 0, port_type = ''optical''\<rparr>
   = Inl OverflowError"
  by (simp add: IPortLike_hash_def to_bytes8_def)


section \<open>Properties of cells and instances\<close>


lemma KCell_hash_without_instances:
  "KCell_hash B (KCell nm shapes props ports [] settings locked info) =
     (case sequence_err (map (IPortLike_hash B) ports) of
        Inl e \<Rightarrow> Inl e
      | Inr hs \<Rightarrow>
          Inr (sha3_512 B (encode_ascii_ignore nm
                 @ concat (map (\<lambda>(l, s).
                      concat (map (\<lambda>polygon. hash_bytes (Polygon_hash B polygon)) (regions s))
                      @ concat (map (\<lambda>text. hash_bytes (Text_hash B text)) (texts s))) shapes)
                 @ concat (sort hs))))"
  by (simp add: Let_def split: sum.splits)

lemma KCell_hash_ignores_instances:
  assumes "sequence_err (map (Instance_hash B) insts) = Inr ihs"
  shows "KCell_hash B (KCell nm shapes props ports insts settings locked info)
       = KCell_hash B (KCell nm shapes props ports [] settings locked info)"
  using assms by (simp add: Let_def split: sum.splits)

text \<open>
  C5.  The claim says that the hash of a cell is the digest of its name, its shape hashes,
  its sorted port hashes and its sorted instance hashes, so that cells which differ in
  their instances only differ in their hashes.  The code sorts the instance hashes and
  never feeds them to the digest: a cell with one instance and the same cell without it
  have the same hash, the digest of the name alone.
\<close>

theorem C5_cell_hash_omits_instances:
  "KCell_hash B (KCell ''top'' [] [] [] [Instance (KCell ''child'' [] [] [] [] [] False []) R180] [] False [])
   = KCell_hash B (KCell ''top'' [] [] [] [] [] False [])
   \<and> KCell_hash B (KCell ''top'' [] [] [] [] [] False []) = Inr (sha3_512 B (encode_ascii_ignore ''top''))"
  by (simp add: Let_def)

text \<open>
  C1.  The claim says that every mutating operation on a locked cell raises a Frozen error
  and leaves the cell unchanged.  In the code no operation looks at the lock:
  \<open>create_port\<close>, \<open>add_port\<close> and \<open>create_inst\<close> on a locked cell return
  without an exception and the cell has the new port or instance.
\<close>

theorem C1_locked_cell_accepts_mutation:
  "KCell_create_port (KCell ''c'' [] [] [] [] [] True []) ''o1'' 500 0 ''optical'' (Some R0) None None False
     = (None, KCell ''c'' [] [] [\<lparr>name = ''o1'', trans = R0, width = 500, layer = 0, port_type = ''optical''\<rparr>] [] [] True [])
   \<and> KCell_add_port (KCell ''c'' [] [] [] [] [] True [])
        \<lparr>name = ''o1'', trans = R0, width = 500, layer = 0, port_type = ''optical''\<rparr> None
     = (None, KCell ''c'' [] [] [\<lparr>name = ''o1'', trans = R0, width = 500, layer = 0, port_type = ''optical''\<rparr>] [] [] True [])
   \<and> KCell_create_inst (KCell ''c'' [] [] [] [] [] True []) (KCell ''child'' [] [] [] [] [] False []) R0
     = (Instance (KCell ''child'' [] [] [] [] [] False []) R0,
        KCell ''c'' [] [] [] [Instance (KCell ''child'' [] [] [] [] [] False []) R0] [] True [])"
  by (simp add: KCell_create_port_def Ports_create_port_def KCell_add_port_def Ports_add_port_def
      KCell_create_inst_def set_ports_def set_insts_def Ports_get_all_def Port_copy_def
      Trans_mul_def R0_def Trans_new_def vadd_def rotate_mirror_def rotate_quarter_def Let_def)

lemma mutators_never_raise_FrozenError:
  "fst (KCell_create_port c nm w l ptype t position ang mirror_x) \<noteq> Some FrozenError"
  "fst (KCell_add_port c port new_name) \<noteq> Some FrozenError"
  by (auto simp: KCell_create_port_def Ports_create_port_def KCell_add_port_def Ports_add_port_def
      Let_def split: option.splits prod.splits sum.splits)



lemma connect_error_unchanged:
  "fst (connect self portname other other_port_name mirror aw al aty) = Some e
     \<Longrightarrow> snd (connect self portname other other_port_name mirror aw al aty) = self"
  by (auto simp: connect_def Let_def split: sum.splits if_splits)

lemma connect_matching:
  assumes "resolve_other other other_port_name = Inr op"
    and "Ports_getitem (kc_ports (inst_cell self)) portname = Inr p"
    and "width p = width op" "layer p = layer op" "port_type p = port_type op"
  shows "connect self portname other other_port_name mirror aw al aty =
           (None, Instance (inst_cell self)
              (Trans_mul (Trans_mul (trans op) (if mirror then M90 else R180))
                 (Trans_inverted (trans p))))"
  using assms by (simp add: connect_def Let_def)

text \<open>
  C2.  For an instance whose own port \<open>p\<close> and whose other port \<open>op\<close> are simple
  integer ports of the same width, layer and type, \<open>connect\<close> sets the transformation
  of the instance to \<open>op.trans * (M90 if mirror else R180) * p.trans.inverted()\<close>.
  Whenever \<open>connect\<close> raises a width, layer or type mismatch the instance is as it
  was; and such a mismatch is raised for ports that differ, unless it is allowed.
\<close>

theorem C2_connect_simple_ports:
  "(resolve_other other other_port_name = Inr op
      \<and> Ports_getitem (kc_ports (inst_cell self)) portname = Inr p
      \<and> width p = width op \<and> layer p = layer op \<and> port_type p = port_type op \<longrightarrow>
    connect self portname other other_port_name mirror aw al aty =
      (None, Instance (inst_cell self)
         (Trans_mul (Trans_mul (trans op) (if mirror then M90 else R180))
            (Trans_inverted (trans p)))))
   \<and> (fst (connect self portname other other_port_name mirror aw al aty)
         \<in> {Some PortWidthMismatch, Some PortLayerMismatch, Some PortTypeMismatch} \<longrightarrow>
       snd (connect self portname other other_port_name mirror aw al aty) = self)
   \<and> (resolve_other other other_port_name = Inr op
      \<and> Ports_getitem (kc_ports (inst_cell self)) portname = Inr p
      \<and> width p \<noteq> width op \<longrightarrow>
    connect self portname other other_port_name mirror False al aty = (Some PortWidthMismatch, self))
   \<and> (resolve_other other other_port_name = Inr op
      \<and> Ports_getitem (kc_ports (inst_cell self)) portname = Inr p
      \<and> width p = width op \<and> layer p \<noteq> layer op \<longrightarrow>
    connect self portname other other_port_name mirror aw False aty = (Some PortLayerMismatch, self))
   \<and> (resolve_other other other_port_name = Inr op
      \<and> Ports_getitem (kc_ports (inst_cell self)) portname = Inr p
      \<and> width p = width op \<and> layer p = layer op \<and> port_type p \<noteq> port_type op \<longrightarrow>
    connect self portname other other_port_name mirror aw al False = (Some PortTypeMismatch, self))"
proof (intro conjI impI)
  assume "resolve_other other other_port_name = Inr op
      \<and> Ports_getitem (kc_ports (inst_cell self)) portname = Inr p
      \<and> width p = width op \<and> layer p = layer op \<and> port_type p = port_type op"
  then show "connect self portname other other_port_name mirror aw al aty =
      (None, Instance (inst_cell self)
         (Trans_mul (Trans_mul (trans op) (if mirror then M90 else R180))
            (Trans_inverted (trans p))))"
    by (simp add: connect_matching)
next
  assume "fst (connect self portname other other_port_name mirror aw al aty)
         \<in> {Some PortWidthMismatch, Some PortLayerMismatch, Some PortTypeMismatch}"
  then obtain e where "fst (connect self portname other other_port_name mirror aw al aty) = Some e"
    by auto
  then show "snd (connect self portname other other_port_name mirror aw al aty) = self"
    by (rule connect_error_unchanged)
next
  assume "resolve_other other other_port_name = Inr op
      \<and> Ports_getitem (kc_ports (inst_cell self)) portname = Inr p
      \<and> width p \<noteq> width op"
  then show "connect self portname other other_port_name mirror False al aty
      = (Some PortWidthMismatch, self)"
    by (simp add: connect_def)
next
  assume "resolve_other other other_port_name = Inr op
      \<and> Ports_getitem (kc_ports (inst_cell self)) portname = Inr p
      \<and> width p = width op \<and> layer p \<noteq> layer op"
  then show "connect self portname other other_port_name mirror aw False aty
      = (Some PortLayerMismatch, self)"
    by (simp add: connect_def)
next
  assume "resolve_other other other_port_name = Inr op
      \<and> Ports_getitem (kc_ports (inst_cell self)) portname = Inr p
      \<and> width p = width op \<and> layer p = layer op \<and> port_type p \<noteq> port_type op"
  then show "connect self portname other other_port_name mirror aw al False
      = (Some PortTypeMismatch, self)"
    by (simp add: connect_def)
qed

theorem C2_connect_simple_ports_witness:
  "connect (Instance example_straight R0) ''o1''
      (OtherPort \<lparr>name = ''in'', trans = Trans_new 0 False (10000, 0), width = 500, layer = 0,
                  port_type = ''optical''\<rparr>) None False False False False
     = (None, Instance example_straight \<lparr>angle = 0, is_mirror = False, disp = (10000, 0)\<rparr>)
   \<and> connect (Instance example_straight R0) ''o1''
      (OtherPort \<lparr>name = ''in'', trans = Trans_new 0 False (10000, 0), width = 1000, layer = 0,
                  port_type = ''optical''\<rparr>) None False False False False
     = (Some PortWidthMismatch, Instance example_straight R0)"
proof -
  let ?op = "\<lparr>name = ''in'', trans = Trans_new 0 False (10000, 0), width = 500, layer = 0,
                  port_type = ''optical''\<rparr>"
  let ?wide = "\<lparr>name = ''in'', trans = Trans_new 0 False (10000, 0), width = 1000, layer = 0,
                  port_type = ''optical''\<rparr>"
  let ?p = "\<lparr>name = ''o1'', trans = Trans_new 2 False (0, 0), width = 500, layer = 0,
                  port_type = ''optical''\<rparr>"
  let ?self = "Instance example_straight R0"
  have p: "Ports_getitem (kc_ports (inst_cell ?self)) ''o1'' = Inr ?p"
    by (simp add: Ports_getitem_def example_straight_def)
  have t: "Trans_mul (Trans_mul (trans ?op) R180) (Trans_inverted (trans ?p))
         = \<lparr>angle = 0, is_mirror = False, disp = (10000, 0)\<rparr>"
    by (simp add: Trans_mul_def Trans_inverted_def Trans_new_def R180_def rotate_mirror_def
        rotate_quarter_def vadd_def vneg_def Let_def)
  have ok: "connect ?self ''o1'' (OtherPort ?op) None False False False False
     = (None, Instance example_straight \<lparr>angle = 0, is_mirror = False, disp = (10000, 0)\<rparr>)"
    using C2_connect_simple_ports [where self = ?self and portname = "''o1''"
        and other = "OtherPort ?op" and other_port_name = None and op = ?op and p = ?p
        and mirror = False and aw = False and al = False and aty = False] p t
    by (simp add: resolve_other_def)
  have mismatch: "connect ?self ''o1'' (OtherPort ?wide) None False False False False
     = (Some PortWidthMismatch, ?self)"
    using C2_connect_simple_ports [where self = ?self and portname = "''o1''"
        and other = "OtherPort ?wide" and other_port_name = None and op = ?wide and p = ?p
        and mirror = False and aw = False and al = False and aty = False] p
    by (simp add: resolve_other_def)
  from ok mismatch show ?thesis by simp
qed

text \<open>After a successful connect the port of the instance sits on the other port, turned around.\<close>

lemma connect_places_port:
  assumes "connect self portname other other_port_name mirror aw al aty = (None, self')"
    and "resolve_other other other_port_name = Inr op"
  shows "\<exists>q. InstancePorts_getitem self' portname = Inr q
            \<and> trans q = Trans_mul (trans op) (if mirror then M90 else R180)"
proof -
  from assms obtain p where p: "Ports_getitem (kc_ports (inst_cell self)) portname = Inr p"
    and s': "self' = Instance (inst_cell self)
              (Trans_mul (Trans_mul (trans op) (if mirror then M90 else R180))
                 (Trans_inverted (trans p)))"
    by (auto simp: connect_def Let_def split: sum.splits if_splits)
  let ?x = "Trans_mul (trans op) (if mirror then M90 else R180)"
  have "Trans_mul (Trans_mul ?x (Trans_inverted (trans p))) (trans p) = Trans_mul ?x R0"
    by (simp add: Trans_mul_assoc Trans_mul_inverted_left)
  also have "\<dots> = ?x"
    by (rule Trans_mul_R0_right) simp
  finally show ?thesis
    using p s' by (simp add: InstancePorts_getitem_def Port_copy_def)
qed


section \<open>Properties of the library of cells\<close>


lemma digit_char_inj: "d < 10 \<Longrightarrow> d' < 10 \<Longrightarrow> digit_char d = digit_char d' \<Longrightarrow> d = d'"
proof -
  assume a: "d < 10" "d' < 10" "digit_char d = digit_char d'"
  have "distinct ''0123456789''" by simp
  with a show ?thesis
    unfolding digit_char_def by (subst (asm) nth_eq_iff_index_eq) simp_all
qed

lemma str_nat_nonempty: "str_nat n \<noteq> []"
  by (subst str_nat.simps) simp

lemma str_nat_small: "n < 10 \<Longrightarrow> str_nat n = [digit_char n]"
  by (subst str_nat.simps) simp

lemma str_nat_large: "\<not> n < 10 \<Longrightarrow> str_nat n = str_nat (n div 10) @ [digit_char (n mod 10)]"
  by (subst str_nat.simps) simp

lemma str_nat_inj: "str_nat m = str_nat n \<Longrightarrow> m = n"
proof (induction m arbitrary: n rule: str_nat.induct)
  case (1 m)
  show ?case
  proof (cases "m < 10")
    case small_m: True
    show ?thesis
    proof (cases "n < 10")
      case True
      with small_m "1.prems" show ?thesis
        by (simp add: str_nat_small digit_char_inj)
    next
      case False
      with small_m "1.prems" str_nat_nonempty [of "n div 10"] show ?thesis
        by (simp add: str_nat_small str_nat_large)
    qed
  next
    case large_m: False
    show ?thesis
    proof (cases "n < 10")
      case True
      with large_m "1.prems" str_nat_nonempty [of "m div 10"] show ?thesis
        by (simp add: str_nat_small str_nat_large)
    next
      case False
      with large_m "1.prems" have eq: "str_nat (m div 10) = str_nat (n div 10)"
        and d: "digit_char (m mod 10) = digit_char (n mod 10)"
        by (simp_all add: str_nat_large)
      from "1.IH" [OF large_m eq] have "m div 10 = n div 10" .
      moreover from d have "m mod 10 = n mod 10"
        by (intro digit_char_inj) simp_all
      ultimately show ?thesis
        by (metis div_mult_mod_eq)
    qed
  qed
qed

lemma duplicate_name_inj: "inj (duplicate_name nm)"
  by (rule injI) (simp add: duplicate_name_def str_nat_inj)

lemma more_names_than_cells:
  assumes "finite S" and "length names < card S"
  shows "\<exists>n \<in> S. duplicate_name nm n \<notin> set names"
proof (rule ccontr)
  assume "\<not> (\<exists>n \<in> S. duplicate_name nm n \<notin> set names)"
  then have sub: "duplicate_name nm ` S \<subseteq> set names" by auto
  have "card (duplicate_name nm ` S) = card S"
    using duplicate_name_inj [of nm] by (intro card_image) (simp add: inj_on_def inj_def)
  moreover have "card (duplicate_name nm ` S) \<le> card (set names)"
    using sub by (simp add: card_mono)
  moreover have "card (set names) \<le> length names" by (rule card_length)
  ultimately show False using assms by simp
qed

lemma some_duplicate_name_free:
  "\<exists>n \<in> set [1..<length names + 2]. duplicate_name nm n \<notin> set names"
proof -
  have "\<exists>n \<in> {1..<length names + 2}. duplicate_name nm n \<notin> set names"
    by (rule more_names_than_cells) simp_all
  then show ?thesis by (simp only: set_upt)
qed

lemma find_duplicate_name:
  "\<exists>n. find (\<lambda>n. duplicate_name nm n \<notin> set names) [1..<length names + 2] = Some n
     \<and> 1 \<le> n \<and> duplicate_name nm n \<notin> set names
     \<and> (\<forall>m. 1 \<le> m \<and> m < n \<longrightarrow> duplicate_name nm m \<in> set names)"
proof -
  let ?P = "\<lambda>n. duplicate_name nm n \<notin> set names"
  let ?xs = "[1..<length names + 2]"
  from some_duplicate_name_free [of names nm]
  obtain n where f: "find ?P ?xs = Some n"
    by (cases "find ?P ?xs") (auto simp only: find_None_iff)
  then obtain i where i: "i < length ?xs" "?P (?xs ! i)" "n = ?xs ! i"
    "\<forall>j<i. \<not> ?P (?xs ! j)"
    unfolding find_Some_iff by blast
  have len: "length ?xs = length names + 1" unfolding length_upt by simp
  have nth: "?xs ! j = 1 + j" if "j < length names + 1" for j
    using that by (subst nth_upt) simp_all
  from i(1,3) len nth have n: "n = 1 + i" by simp
  have below: "duplicate_name nm m \<in> set names" if "1 \<le> m" "m < n" for m
  proof -
    from that n have lt: "m - 1 < i" by simp
    with i(4) have "\<not> ?P (?xs ! (m - 1))" by blast
    moreover from lt i(1) len have "?xs ! (m - 1) = 1 + (m - 1)" by (intro nth) simp
    ultimately show ?thesis using that by simp
  qed
  from f i(2,3) n below show ?thesis by (intro exI [of _ n]) simp
qed

lemma unique_cell_name_fresh: "unique_cell_name names nm \<notin> set names"
proof (cases "nm \<in> set names")
  case False
  then show ?thesis by (simp add: unique_cell_name_def)
next
  case True
  from find_duplicate_name [of nm names]
  obtain n where "find (\<lambda>n. duplicate_name nm n \<notin> set names) [1..<length names + 2] = Some n"
    and "duplicate_name nm n \<notin> set names"
    by blast
  with True show ?thesis by (simp add: unique_cell_name_def)
qed

lemma unique_cell_name_taken:
  assumes "nm \<in> set names"
  shows "\<exists>n\<ge>1. unique_cell_name names nm = duplicate_name nm n
           \<and> duplicate_name nm n \<notin> set names
           \<and> (\<forall>m. 1 \<le> m \<and> m < n \<longrightarrow> duplicate_name nm m \<in> set names)"
proof -
  from find_duplicate_name [of nm names]
  obtain n where "find (\<lambda>n. duplicate_name nm n \<notin> set names) [1..<length names + 2] = Some n"
    and "1 \<le> n" and "duplicate_name nm n \<notin> set names"
    and "\<forall>m. 1 \<le> m \<and> m < n \<longrightarrow> duplicate_name nm m \<in> set names"
    by blast
  with assms show ?thesis
    by (intro exI [of _ n]) (simp add: unique_cell_name_def)
qed

lemma Layout_cell_None_iff: "Layout_cell lib nm = None \<longleftrightarrow> nm \<notin> set (layout_cells lib)"
proof -
  have "find (\<lambda>i. layout_cells lib ! i = nm) [0..<length (layout_cells lib)] = None
      \<longleftrightarrow> nm \<notin> set (layout_cells lib)"
    unfolding find_None_iff by (auto simp: in_set_conv_nth)
  then show ?thesis
    by (auto simp: Layout_cell_def split: option.splits)
qed



lemma str_nat_1: "str_nat (Suc 0) = ''1''"
  by (simp add: str_nat_small digit_char_def)

lemma dup1: "duplicate_name ''a'' (Suc 0) = ''a$1''"
  by (simp add: duplicate_name_def str_nat_1)

text \<open>
  C4 (as the code has it).  When the requested name is the name of a cell of the layout
  and \<open>allow_duplicate\<close> is not set, \<open>create_cell\<close> raises a \<open>ValueError\<close> and
  neither creates nor registers a cell.  When the name is free the cell is created and
  registered under it.  Only with \<open>allow_duplicate\<close> a cell is created for a name
  that is taken: the backend names it with the first free one of \<open>$1\<close>, \<open>$2\<close>, ...
  appended, and the cell object is registered under the requested name.
\<close>

theorem C4_create_cell_name_collision:
  "(nm \<in> set (layout_cells lib) \<and> \<not> allow_duplicate \<longrightarrow>
      KLib_create_cell lib k nm allow_duplicate = (Inl ValueError, lib))
   \<and> (nm \<notin> set (layout_cells lib) \<longrightarrow>
      KLib_create_cell lib k nm allow_duplicate =
        (Inr \<lparr>cell_index = length (layout_cells lib), cell_name = nm\<rparr>,
         lib\<lparr>kcells := (kcells lib)(nm \<mapsto> k), layout_cells := layout_cells lib @ [nm]\<rparr>))
   \<and> (nm \<in> set (layout_cells lib) \<and> allow_duplicate \<longrightarrow>
      (\<exists>n\<ge>1. duplicate_name nm n \<notin> set (layout_cells lib)
         \<and> (\<forall>m. 1 \<le> m \<and> m < n \<longrightarrow> duplicate_name nm m \<in> set (layout_cells lib))
         \<and> KLib_create_cell lib k nm allow_duplicate =
             (Inr \<lparr>cell_index = length (layout_cells lib), cell_name = duplicate_name nm n\<rparr>,
              lib\<lparr>kcells := (kcells lib)(nm \<mapsto> k),
                  layout_cells := layout_cells lib @ [duplicate_name nm n]\<rparr>)))"
proof (intro conjI impI)
  assume "nm \<in> set (layout_cells lib) \<and> \<not> allow_duplicate"
  then show "KLib_create_cell lib k nm allow_duplicate = (Inl ValueError, lib)"
    by (simp add: KLib_create_cell_def Layout_cell_None_iff)
next
  assume "nm \<notin> set (layout_cells lib)"
  then show "KLib_create_cell lib k nm allow_duplicate =
        (Inr \<lparr>cell_index = length (layout_cells lib), cell_name = nm\<rparr>,
         lib\<lparr>kcells := (kcells lib)(nm \<mapsto> k), layout_cells := layout_cells lib @ [nm]\<rparr>)"
    by (simp add: KLib_create_cell_def Layout_cell_None_iff Layout_create_cell_def
        unique_cell_name_def Let_def)
next
  assume a: "nm \<in> set (layout_cells lib) \<and> allow_duplicate"
  with unique_cell_name_taken [of nm "layout_cells lib"]
  obtain n where n: "1 \<le> n" "unique_cell_name (layout_cells lib) nm = duplicate_name nm n"
    "duplicate_name nm n \<notin> set (layout_cells lib)"
    "\<forall>m. 1 \<le> m \<and> m < n \<longrightarrow> duplicate_name nm m \<in> set (layout_cells lib)"
    by blast
  from a n(2) have "KLib_create_cell lib k nm allow_duplicate =
             (Inr \<lparr>cell_index = length (layout_cells lib), cell_name = duplicate_name nm n\<rparr>,
              lib\<lparr>kcells := (kcells lib)(nm \<mapsto> k),
                  layout_cells := layout_cells lib @ [duplicate_name nm n]\<rparr>)"
    by (simp add: KLib_create_cell_def Layout_create_cell_def Let_def)
  with n show "\<exists>n\<ge>1. duplicate_name nm n \<notin> set (layout_cells lib)
         \<and> (\<forall>m. 1 \<le> m \<and> m < n \<longrightarrow> duplicate_name nm m \<in> set (layout_cells lib))
         \<and> KLib_create_cell lib k nm allow_duplicate =
             (Inr \<lparr>cell_index = length (layout_cells lib), cell_name = duplicate_name nm n\<rparr>,
              lib\<lparr>kcells := (kcells lib)(nm \<mapsto> k),
                  layout_cells := layout_cells lib @ [duplicate_name nm n]\<rparr>)"
    by blast
qed

text \<open>
  A library with a cell \<open>a\<close>: creating another cell \<open>a\<close> without
  \<open>allow_duplicate\<close> raises, and the library is as before.
\<close>

theorem C4_create_cell_counterexample:
  "KLib_create_cell \<lparr>kcells = [''a'' \<mapsto> 0], layout_cells = [''a'']\<rparr> (1::nat) ''a'' False
     = (Inl ValueError, \<lparr>kcells = [''a'' \<mapsto> 0], layout_cells = [''a'']\<rparr>)"
  by (simp add: KLib_create_cell_def Layout_cell_def)

theorem C4_create_cell_name_collision_witness:
  "KLib_create_cell \<lparr>kcells = [''a'' \<mapsto> 0], layout_cells = [''a'']\<rparr> (1::nat) ''a'' False
     = (Inl ValueError, \<lparr>kcells = [''a'' \<mapsto> 0], layout_cells = [''a'']\<rparr>)
   \<and> KLib_create_cell \<lparr>kcells = [''a'' \<mapsto> 0], layout_cells = [''a'']\<rparr> (1::nat) ''b'' False
     = (Inr \<lparr>cell_index = 1, cell_name = ''b''\<rparr>,
        \<lparr>kcells = [''a'' \<mapsto> 0, ''b'' \<mapsto> 1], layout_cells = [''a'', ''b'']\<rparr>)
   \<and> KLib_create_cell \<lparr>kcells = [''a'' \<mapsto> 0], layout_cells = [''a'']\<rparr> (1::nat) ''a'' True
     = (Inr \<lparr>cell_index = 1, cell_name = ''a$1''\<rparr>,
        \<lparr>kcells = [''a'' \<mapsto> 1], layout_cells = [''a'', ''a$1'']\<rparr>)"
proof -
  let ?lib = "\<lparr>kcells = [''a'' \<mapsto> (0::nat)], layout_cells = [''a'']\<rparr>"
  have refused: "KLib_create_cell ?lib 1 ''a'' False = (Inl ValueError, ?lib)"
    using C4_create_cell_name_collision [of "''a''" ?lib False 1] by simp
  have free: "KLib_create_cell ?lib 1 ''b'' False
     = (Inr \<lparr>cell_index = 1, cell_name = ''b''\<rparr>,
        \<lparr>kcells = [''a'' \<mapsto> 0, ''b'' \<mapsto> 1], layout_cells = [''a'', ''b'']\<rparr>)"
    using C4_create_cell_name_collision [of "''b''" ?lib False 1] by simp
  from C4_create_cell_name_collision [of "''a''" ?lib True 1]
  obtain n where n: "1 \<le> n" "duplicate_name ''a'' n \<notin> set [''a'']"
    "\<forall>m. 1 \<le> m \<and> m < n \<longrightarrow> duplicate_name ''a'' m \<in> set [''a'']"
    "KLib_create_cell ?lib 1 ''a'' True =
       (Inr \<lparr>cell_index = 1, cell_name = duplicate_name ''a'' n\<rparr>,
        ?lib\<lparr>kcells := (kcells ?lib)(''a'' \<mapsto> 1),
             layout_cells := [''a''] @ [duplicate_name ''a'' n]\<rparr>)"
    by auto
  have "n = 1"
  proof (rule ccontr)
    assume "n \<noteq> 1"
    with n(1,3) have "duplicate_name ''a'' 1 \<in> set [''a'']" by auto
    then show False by (simp add: dup1)
  qed
  with n(4) have dup: "KLib_create_cell ?lib 1 ''a'' True
     = (Inr \<lparr>cell_index = 1, cell_name = ''a$1''\<rparr>,
        \<lparr>kcells = [''a'' \<mapsto> 1], layout_cells = [''a'', ''a$1'']\<rparr>)"
    by (simp add: dup1)
  from refused free dup show ?thesis by simp
qed


section \<open>Properties of the placers\<close>


lemma vlength_horizontal: "0 \<le> x \<Longrightarrow> vlength (x, 0) = real_of_int x"
  by (simp add: vlength_def)

lemma py_round_of_int: "py_round (of_int n) = n"
  by (simp add: py_round_def)

lemma single_wire_length_two_points:
  "single_wire_length p [q] 0 = spec_length_straights [p, q]"
  by simp



lemma sqrt_corner: "11180 < sqrt 125000000" "sqrt 125000000 < 11180 + 1 / 2"
proof -
  show "11180 < sqrt 125000000"
    by (rule real_less_rsqrt) simp
  have "sqrt 125000000 < 22361 / 2"
    by (rule real_less_lsqrt) (simp_all add: power2_eq_square)
  then show "sqrt 125000000 < 11180 + 1 / 2" by simp
qed

lemma py_round_between:
  assumes "of_int n < x" "x < of_int n + 1 / 2"
  shows "py_round x = n"
proof -
  from assms have fl: "\<lfloor>x\<rfloor> = n" by (intro floor_unique) simp_all
  from assms have fl2: "\<lfloor>x + 1 / 2\<rfloor> = n" by (intro floor_unique) simp_all
  from assms fl have "x - of_int \<lfloor>x\<rfloor> \<noteq> 1 / 2" by simp
  with fl2 show ?thesis by (simp add: py_round_def)
qed

lemma single_wire_corner:
  "py_round (single_wire_length (0, 0) [(10000, 0), (10000, 5000)] 0) = 21180"
proof -
  have "single_wire_length (0, 0) [(10000, 0), (10000, 5000)] 0 = 10000 + sqrt 125000000"
    by (simp add: vsub_def vlength_def)
  moreover have "py_round (10000 + sqrt 125000000) = 21180"
    using sqrt_corner by (intro py_round_between) simp_all
  ultimately show ?thesis by simp
qed

lemma spec_corner: "spec_length_straights [(0, 0), (10000, 0), (10000, 5000)] = 15000"
  by (simp add: vsub_def vlength_def)


text \<open>
  C8.  The claim says that \<open>length_straights\<close> of the route of the single wire placer
  is the sum of the distances of consecutive backbone points.  The loop of the placer
  never moves \<open>pt1\<close> on, so it adds up the distances from the first point.  For the
  straight backbone through (0, 0), (10000, 0), (20000, 0) it returns 30000, not 20000,
  and for the backbone with a corner (0, 0), (10000, 0), (10000, 5000) it returns 21180,
  not 15000.
\<close>

theorem C8_single_wire_length_from_first_point:
  "fst (place_single_wire G p1 p2 [(0, 0), (10000, 0), (20000, 0)] None None [] c)
     = Inr \<lparr>mr_backbone = [(0, 0), (10000, 0), (20000, 0)], mr_start_port = p1, mr_end_port = p2,
            mr_instances = [], mr_n_bend90 = 0, mr_n_taper = 0, mr_bend90_radius = 0,
            mr_taper_length = 0, mr_length = 0, mr_length_straights = 30000,
            mr_polygons = [(rp_layer_info p1,
               [path_polygon G [(0, 0), (10000, 0), (20000, 0)] (rp_width p1)])]\<rparr>
   \<and> spec_length_straights [(0, 0), (10000, 0), (20000, 0)] = 20000
   \<and> fst (place_single_wire G p1 p2 [(0, 0), (10000, 0), (10000, 5000)] None None [] c)
     = Inr \<lparr>mr_backbone = [(0, 0), (10000, 0), (10000, 5000)], mr_start_port = p1, mr_end_port = p2,
            mr_instances = [], mr_n_bend90 = 0, mr_n_taper = 0, mr_bend90_radius = 0,
            mr_taper_length = 0, mr_length = 0, mr_length_straights = 21180,
            mr_polygons = [(rp_layer_info p1,
               [path_polygon G [(0, 0), (10000, 0), (10000, 5000)] (rp_width p1)])]\<rparr>
   \<and> spec_length_straights [(0, 0), (10000, 0), (10000, 5000)] = 15000"
proof -
  have "single_wire_length (0, 0) [(10000, 0), (20000, 0)] 0 = real_of_int 30000"
    by (simp add: vsub_def vlength_horizontal)
  then have straight: "py_round (single_wire_length (0, 0) [(10000, 0), (20000, 0)] 0) = 30000"
    by (simp only: py_round_of_int)
  have spec_straight: "spec_length_straights [(0, 0), (10000, 0), (20000, 0)] = 20000"
    by (simp add: vsub_def vlength_horizontal)
  from straight spec_straight single_wire_corner spec_corner show ?thesis
    by (simp add: place_single_wire_def Let_def)
qed

section \<open>Properties of bundle routing\<close>


text \<open>
  C10.  With an empty sequence of start ports \<open>route_bundle\<close> returns the empty list
  and raises nothing, whatever the other arguments are; the state is the one before the
  call for every routing function, post process function, placer and collision check, so
  none of them is called.
\<close>

theorem C10_route_bundle_without_start_ports:
  "route_bundle E (kw\<lparr>start_ports := []\<rparr>) w = (Inr [], w)"
  by (simp add: route_bundle_def bundle_routers_def)

text \<open>One round of the loop, as a step on the state.\<close>

lemma place_routes_state:
  "snd (place_routes placer rs routes errs ers w)
     = foldl (\<lambda>s (router, ps, pe). snd (placer ps pe (start_pts router) s)) w rs"
proof (induction rs arbitrary: routes errs ers w)
  case Nil
  then show ?case by simp
next
  case (Cons r rs)
  obtain router ps pe where r: "r = (router, ps, pe)" by (cases r)
  show ?case
  proof (cases "placer ps pe (start_pts router) w")
    case (Pair res w1)
    then show ?thesis using Cons.IH r by (cases res) simp_all
  qed
qed

lemma place_routes_count:
  "place_routes placer rs routes errs ers w = ((routes', errs', ers'), w') \<Longrightarrow>
     length routes' + length errs' = length routes + length errs + length rs
     \<and> length ers' + length errs = length errs' + length ers"
proof (induction rs arbitrary: routes errs ers w)
  case Nil
  then show ?case by simp
next
  case (Cons r rs)
  obtain router ps pe where r: "r = (router, ps, pe)" by (cases r)
  show ?case
  proof (cases "placer ps pe (start_pts router) w")
    case (Pair res w1)
    show ?thesis
    proof (cases res)
      case (Inl e)
      with Pair r Cons.prems
      have "place_routes placer rs routes (errs @ [e])
              (ers @ [(ps, pe, start_pts router, router_width router)]) w1
            = ((routes', errs', ers'), w')" by simp
      from Cons.IH [OF this] show ?thesis by simp
    next
      case (Inr route)
      with Pair r Cons.prems
      have "place_routes placer rs (routes @ [route]) errs ers w1 = ((routes', errs', ers'), w')"
        by simp
      from Cons.IH [OF this] show ?thesis by simp
    qed
  qed
qed

lemma place_routes_errors_grow:
  "place_routes placer rs routes errs ers w = ((routes', errs', ers'), w') \<Longrightarrow>
     length errs \<le> length errs'"
proof (induction rs arbitrary: routes errs ers w)
  case Nil
  then show ?case by simp
next
  case (Cons r rs)
  obtain router ps pe where r: "r = (router, ps, pe)" by (cases r)
  show ?case
  proof (cases "placer ps pe (start_pts router) w")
    case (Pair res w1)
    show ?thesis
    proof (cases res)
      case (Inl e)
      with Pair r Cons.prems
      have "place_routes placer rs routes (errs @ [e])
              (ers @ [(ps, pe, start_pts router, router_width router)]) w1
            = ((routes', errs', ers'), w')" by simp
      from Cons.IH [OF this] show ?thesis by simp
    next
      case (Inr route)
      with Pair r Cons.prems
      have "place_routes placer rs (routes @ [route]) errs ers w1 = ((routes', errs', ers'), w')"
        by simp
      from Cons.IH [OF this] show ?thesis by simp
    qed
  qed
qed

lemma place_routes_failing_route:
  assumes "place_routes placer rs routes errs ers w = ((routes', errs', ers'), w')"
    and "(router, ps, pe) \<in> set rs"
    and "\<And>s. isl (fst (placer ps pe (start_pts router) s))"
  shows "length errs < length errs'"
  using assms(1,2)
proof (induction rs arbitrary: routes errs ers w)
  case Nil
  then show ?case by simp
next
  case (Cons r rs)
  obtain router0 ps0 pe0 where r: "r = (router0, ps0, pe0)" by (cases r)
  show ?case
  proof (cases "placer ps0 pe0 (start_pts router0) w")
    case (Pair res w1)
    show ?thesis
    proof (cases res)
      case (Inl e)
      with Pair r Cons.prems
      have "place_routes placer rs routes (errs @ [e])
              (ers @ [(ps0, pe0, start_pts router0, router_width router0)]) w1
            = ((routes', errs', ers'), w')" by simp
      from place_routes_errors_grow [OF this] show ?thesis by simp
    next
      case (Inr route)
      with Pair r Cons.prems(1)
      have rest: "place_routes placer rs (routes @ [route]) errs ers w1 = ((routes', errs', ers'), w')"
        by simp
      have "(router, ps, pe) \<noteq> r"
      proof
        assume "(router, ps, pe) = r"
        with r Pair Inr assms(3) [of w] show False by simp
      qed
      with Cons.prems(2) have "(router, ps, pe) \<in> set rs" by simp
      from Cons.IH [OF rest this] show ?thesis .
    qed
  qed
qed

lemma place_dual_rails_too_wide:
  "separation_rails \<ge> (case rw of None \<Rightarrow> rp_width p1 | Some w \<Rightarrow> w) \<Longrightarrow>
     place_dual_rails G p1 p2 pts rw layer_info (Some separation_rails) kwargs c
       = (Inl ValueError, c)"
  by (simp add: place_dual_rails_def Let_def)



text \<open>
  C7.  The dual rail placer fails whenever \<open>separation_rails >= route_width\<close>.  When
  \<open>route_bundle\<close> has its routers, the state after the loop over them is the state
  after calling the placer for every router in turn, whether or not earlier calls raised;
  and if the placer fails for one of the routes and \<open>on_placer_error\<close> is
  \<open>"error"\<close>, the call raises \<open>PlacerError\<close> from the state in which all routes have
  been tried and the collected errors have been logged.
\<close>

theorem C7_placer_errors_collected:
  "(separation_rails \<ge> (case rw of None \<Rightarrow> rp_width p1 | Some x \<Rightarrow> x) \<longrightarrow>
      place_dual_rails G p1 p2 pts rw layer_info (Some separation_rails) kwargs c
        = (Inl ValueError, c))
   \<and> (bundle_routers E kw w = (Inr (routers, pps, ppe), w0) \<longrightarrow>
     snd (place_routes (placer_function E) (zip routers (zip pps ppe)) [] [] [] w0)
       = foldl (\<lambda>s (router, ps, pe). snd (placer_function E ps pe (start_pts router) s)) w0
           (zip routers (zip pps ppe))
     \<and> ((\<exists>router ps pe. (router, ps, pe) \<in> set (zip routers (zip pps ppe))
            \<and> (\<forall>s. isl (fst (placer_function E ps pe (start_pts router) s))))
          \<and> on_placer_error kw = Some On_error \<longrightarrow>
         (\<exists>placer_errors. placer_errors \<noteq> []
            \<and> route_bundle E kw w =
                (Inl PlacerError,
                 foldl (\<lambda>s e. logger_error E e s)
                   (foldl (\<lambda>s (router, ps, pe). snd (placer_function E ps pe (start_pts router) s))
                      w0 (zip routers (zip pps ppe)))
                   placer_errors))))"
proof (intro impI conjI)
  assume "separation_rails \<ge> (case rw of None \<Rightarrow> rp_width p1 | Some x \<Rightarrow> x)"
  then show "place_dual_rails G p1 p2 pts rw layer_info (Some separation_rails) kwargs c
        = (Inl ValueError, c)"
    by (rule place_dual_rails_too_wide)
next
  show "snd (place_routes (placer_function E) (zip routers (zip pps ppe)) [] [] [] w0)
       = foldl (\<lambda>s (router, ps, pe). snd (placer_function E ps pe (start_pts router) s)) w0
           (zip routers (zip pps ppe))"
    by (rule place_routes_state)
next
  assume reach: "bundle_routers E kw w = (Inr (routers, pps, ppe), w0)"
  assume "(\<exists>router ps pe. (router, ps, pe) \<in> set (zip routers (zip pps ppe))
            \<and> (\<forall>s. isl (fst (placer_function E ps pe (start_pts router) s))))
          \<and> on_placer_error kw = Some On_error"
  then obtain router ps pe where bad: "(router, ps, pe) \<in> set (zip routers (zip pps ppe))"
    and fails: "\<And>s. isl (fst (placer_function E ps pe (start_pts router) s))"
    and policy: "on_placer_error kw = Some On_error"
    by blast
  obtain routes errs ers w1 where
    loop: "place_routes (placer_function E) (zip routers (zip pps ppe)) [] [] [] w0
             = ((routes, errs, ers), w1)"
    by (metis prod.exhaust)
  from place_routes_failing_route [OF loop bad fails] have nonempty: "errs \<noteq> []" by auto
  from place_routes_state [of "placer_function E" "zip routers (zip pps ppe)" "[]" "[]" "[]" w0] loop
  have w1: "w1 = foldl (\<lambda>s (router, ps, pe). snd (placer_function E ps pe (start_pts router) s)) w0
           (zip routers (zip pps ppe))"
    by simp
  from loop nonempty policy
  have "place_and_check E kw routers pps ppe w0
          = (Inl PlacerError, foldl (\<lambda>s e. logger_error E e s) w1 errs)"
    by (simp add: place_and_check_def)
  with reach have "route_bundle E kw w = (Inl PlacerError, foldl (\<lambda>s e. logger_error E e s) w1 errs)"
    by (simp add: route_bundle_def)
  with nonempty w1 show "\<exists>placer_errors. placer_errors \<noteq> []
            \<and> route_bundle E kw w =
                (Inl PlacerError,
                 foldl (\<lambda>s e. logger_error E e s)
                   (foldl (\<lambda>s (router, ps, pe). snd (placer_function E ps pe (start_pts router) s))
                      w0 (zip routers (zip pps ppe)))
                   placer_errors)"
    by blast
qed

lemma example_bundle_routers:
  "bundle_routers example_env example_kwargs ([], []) =
     (Inr ([\<lparr>start_transformation = Trans_new 0 False (0, 0),
              end_transformation = Trans_new 2 False (50000, 0),
              start_pts = [(0, 0), (50000, 0)], router_width = 1000\<rparr>,
            \<lparr>start_transformation = Trans_new 0 False (0, 5000),
              end_transformation = Trans_new 2 False (50000, 5000),
              start_pts = [(0, 5000), (50000, 5000)], router_width = 3000\<rparr>],
           start_ports example_kwargs, end_ports example_kwargs), ([], []))"
  by (simp add: bundle_routers_def example_env_def example_kwargs_def example_routing_def
     example_port_def normalize_angles_def normalize_steps_def rotate_start_ports_def
     rotate_end_ports_def bundle_widths_def trans_mapping_def Trans_new_def Let_def)

theorem C7_placer_errors_collected_witness:
  "fst (route_bundle example_env example_kwargs ([], [])) = Inl PlacerError
   \<and> route_bundle example_env example_kwargs ([], [])
     = (Inl PlacerError,
        ([((1, 0), ([(0, 5000), (50000, 5000)], 3000)), ((1, 0), ([(0, 5000), (50000, 5000)], 2000))],
         [ValueError]))"
proof -
  let ?r1 = "\<lparr>start_transformation = Trans_new 0 False (0, 0),
              end_transformation = Trans_new 2 False (50000, 0),
              start_pts = [(0, 0), (50000, 0)], router_width = 1000\<rparr>"
  let ?r2 = "\<lparr>start_transformation = Trans_new 0 False (0, 5000),
              end_transformation = Trans_new 2 False (50000, 5000),
              start_pts = [(0, 5000), (50000, 5000)], router_width = 3000\<rparr>"
  let ?a1 = "example_port ''a1'' 0 (0, 0) 1000"
  let ?b1 = "example_port ''b1'' 2 (50000, 0) 1000"
  let ?triples = "zip [?r1, ?r2] (zip (start_ports example_kwargs) (end_ports example_kwargs))"
  let ?step = "\<lambda>s (router, ps, pe). snd (placer_function example_env ps pe (start_pts router) s)"
  have first: "(?r1, ?a1, ?b1) \<in> set ?triples"
    by (simp add: example_kwargs_def)
  have fails: "\<forall>s. isl (fst (placer_function example_env ?a1 ?b1 (start_pts ?r1) s))"
    by (simp add: example_env_def example_port_def place_dual_rails_def split: prod.splits)
  have policy: "on_placer_error example_kwargs = Some On_error"
    by (simp add: example_kwargs_def)
  from C7_placer_errors_collected [where E = example_env and kw = example_kwargs
      and w = "([], [])" and routers = "[?r1, ?r2]" and pps = "start_ports example_kwargs"
      and ppe = "end_ports example_kwargs" and ?w0.0 = "([], [])"]
    example_bundle_routers first fails policy
  obtain placer_errors where
    raised: "route_bundle example_env example_kwargs ([], [])
       = (Inl PlacerError,
          foldl (\<lambda>s e. logger_error example_env e s) (foldl ?step ([], []) ?triples) placer_errors)"
    by blast
  have direct: "route_bundle example_env example_kwargs ([], [])
       = (Inl PlacerError,
        ([((1, 0), ([(0, 5000), (50000, 5000)], 3000)), ((1, 0), ([(0, 5000), (50000, 5000)], 2000))],
         [ValueError]))"
    by (simp add: route_bundle_def example_bundle_routers place_and_check_def)
       (simp add: example_env_def example_kwargs_def example_port_def place_dual_rails_def
          region_getitem_def example_geometry_def Let_def)
  from raised have "fst (route_bundle example_env example_kwargs ([], [])) = Inl PlacerError"
    by simp
  with direct show ?thesis by simp
qed


theorem C10_route_bundle_without_start_ports_witness:
  "route_bundle example_env (example_kwargs\<lparr>start_ports := []\<rparr>) ([], []) = (Inr [], ([], []))"
  using C10_route_bundle_without_start_ports [of example_env example_kwargs "([], [])"]
  by simp

end
